theory Spec2Isabelle
  imports Main "HOL-Library.Char_ord" "HOL-Library.List_Lexorder" "HOL-Library.Code_Target_Nat"
begin

section \<open>Byte strings and the Go library functions the codec calls\<close>

text \<open>
  A Go \<^verbatim>\<open>string\<close> or \<^verbatim>\<open>[]byte\<close> is a sequence of bytes; it is modelled as
  \<^typ>\<open>string\<close> (a list of 8-bit characters). The functions of this section are the
  functions of Go's \<^verbatim>\<open>strings\<close>, \<^verbatim>\<open>bytes\<close>, \<^verbatim>\<open>strconv\<close>, \<^verbatim>\<open>fmt\<close> and
  \<^verbatim>\<open>bufio\<close> packages that \<^verbatim>\<open>decode.go\<close> and the encoder call, written as
  functions on byte lists.
\<close>

definition ord :: "char \<Rightarrow> nat" where
  "ord c = of_char c"

definition HasPrefix :: "string \<Rightarrow> string \<Rightarrow> bool" where
  "HasPrefix s p = (take (length p) s = p)"

definition HasSuffix :: "string \<Rightarrow> string \<Rightarrow> bool" where
  "HasSuffix s p = (length p \<le> length s \<and> drop (length s - length p) s = p)"

text \<open>\<^verbatim>\<open>strings.ReplaceAll(s, old, new)\<close> for a one-byte \<^verbatim>\<open>old\<close>.\<close>

definition ReplaceAll :: "string \<Rightarrow> char \<Rightarrow> string \<Rightarrow> string" where
  "ReplaceAll s old new = concat (map (\<lambda>c. if c = old then new else [c]) s)"

text \<open>\<^verbatim>\<open>strings.Split(s, sep)\<close> for a one-byte separator: never an empty list.\<close>

fun Split :: "string \<Rightarrow> char \<Rightarrow> string list" where
  "Split [] sep = [[]]"
| "Split (c # cs) sep =
     (if c = sep then [] # Split cs sep
      else (case Split cs sep of
              [] \<Rightarrow> [[c]]
            | p # ps \<Rightarrow> (c # p) # ps))"

fun Join :: "string list \<Rightarrow> string \<Rightarrow> string" where
  "Join [] sep = []"
| "Join [p] sep = p"
| "Join (p # q # ps) sep = p @ sep @ Join (q # ps) sep"

text \<open>\<^verbatim>\<open>strings.Index\<close> for a one-byte needle and \<^verbatim>\<open>strings.IndexAny\<close>: the position
  of the first byte that satisfies the test, \<open>None\<close> for Go's \<open>-1\<close>.\<close>

fun indexWhere :: "(char \<Rightarrow> bool) \<Rightarrow> string \<Rightarrow> nat option" where
  "indexWhere P [] = None"
| "indexWhere P (c # cs) =
     (if P c then Some 0 else map_option Suc (indexWhere P cs))"

definition Index :: "string \<Rightarrow> char \<Rightarrow> nat option" where
  "Index s c = indexWhere (\<lambda>x. x = c) s"

definition IndexAny :: "string \<Rightarrow> string \<Rightarrow> nat option" where
  "IndexAny s chars = indexWhere (\<lambda>x. x \<in> set chars) s"

subsection \<open>White space\<close>

text \<open>
  \<^verbatim>\<open>strings.TrimSpace\<close>, \<^verbatim>\<open>bytes.TrimSpace\<close> and \<^verbatim>\<open>strings.Fields\<close> use Unicode's
  White\_Space property: the six ASCII bytes and the UTF-8 encodings of U+0085, U+00A0,
  U+1680, U+2000 .. U+200A, U+2028, U+2029, U+202F, U+205F and U+3000. The start byte of
  each encoding is never a continuation byte, so matching the encodings byte-wise finds
  the same white space as decoding runes does.
\<close>

definition asciiSpace :: "char \<Rightarrow> bool" where
  "asciiSpace c = (c \<in> set [CHR 0x09, CHR 0x0A, CHR 0x0B, CHR 0x0C, CHR 0x0D, CHR 0x20])"

definition unicodeSpaces :: "string list" where
  "unicodeSpaces =
     [[CHR 0xC2, CHR 0x85], [CHR 0xC2, CHR 0xA0], [CHR 0xE1, CHR 0x9A, CHR 0x80],
      [CHR 0xE2, CHR 0x80, CHR 0x80], [CHR 0xE2, CHR 0x80, CHR 0x81],
      [CHR 0xE2, CHR 0x80, CHR 0x82], [CHR 0xE2, CHR 0x80, CHR 0x83],
      [CHR 0xE2, CHR 0x80, CHR 0x84], [CHR 0xE2, CHR 0x80, CHR 0x85],
      [CHR 0xE2, CHR 0x80, CHR 0x86], [CHR 0xE2, CHR 0x80, CHR 0x87],
      [CHR 0xE2, CHR 0x80, CHR 0x88], [CHR 0xE2, CHR 0x80, CHR 0x89],
      [CHR 0xE2, CHR 0x80, CHR 0x8A], [CHR 0xE2, CHR 0x80, CHR 0xA8],
      [CHR 0xE2, CHR 0x80, CHR 0xA9], [CHR 0xE2, CHR 0x80, CHR 0xAF],
      [CHR 0xE2, CHR 0x81, CHR 0x9F], [CHR 0xE3, CHR 0x80, CHR 0x80]]"

text \<open>The number of bytes of the white-space rune at the head of \<open>s\<close>; 0 when the head
  is not white space.\<close>

definition spaceLen :: "string \<Rightarrow> nat" where
  "spaceLen s =
     (case s of
        [] \<Rightarrow> 0
      | c # _ \<Rightarrow>
          if asciiSpace c then 1
          else (case find (HasPrefix s) unicodeSpaces of
                  Some u \<Rightarrow> length u
                | None \<Rightarrow> 0))"

lemma find_SomeD: "find P xs = Some x \<Longrightarrow> P x"
  by (induction xs) (auto split: if_splits)

lemma HasPrefix_length: "HasPrefix s p \<Longrightarrow> length p \<le> length s"
proof -
  assume "HasPrefix s p"
  then have "length (take (length p) s) = length p" by (simp only: HasPrefix_def)
  then show ?thesis by simp
qed

lemma spaceLen_le: "spaceLen s \<le> length s"
proof (cases s)
  case Nil
  then show ?thesis by (simp add: spaceLen_def)
next
  case (Cons c cs)
  have "case find (HasPrefix s) unicodeSpaces of Some u \<Rightarrow> length u \<le> length s | None \<Rightarrow> True"
    by (auto split: option.split dest!: find_SomeD HasPrefix_length)
  then show ?thesis unfolding spaceLen_def using Cons by (auto split: option.splits)
qed

function trimLeft :: "string \<Rightarrow> string" where
  "trimLeft s = (if spaceLen s = 0 then s else trimLeft (drop (spaceLen s) s))"
  by pat_completeness auto
termination
proof (relation "measure length")
  show "wf (measure length)" by simp
next
  fix s :: string
  assume "spaceLen s \<noteq> 0"
  moreover have "spaceLen s \<le> length s" by (rule spaceLen_le)
  ultimately show "(drop (spaceLen s) s, s) \<in> measure length" by simp
qed

declare trimLeft.simps [simp del]

text \<open>The white-space rune at the end of \<open>s\<close>, read on the reversed string.\<close>

definition spaceLenRev :: "string \<Rightarrow> nat" where
  "spaceLenRev r =
     (case r of
        [] \<Rightarrow> 0
      | c # _ \<Rightarrow>
          if asciiSpace c then 1
          else (case find (\<lambda>u. HasPrefix r (rev u)) unicodeSpaces of
                  Some u \<Rightarrow> length u
                | None \<Rightarrow> 0))"

lemma spaceLenRev_le: "spaceLenRev r \<le> length r"
proof (cases r)
  case Nil
  then show ?thesis by (simp add: spaceLenRev_def)
next
  case (Cons c cs)
  have "case find (\<lambda>u. HasPrefix r (rev u)) unicodeSpaces of
          Some u \<Rightarrow> length u \<le> length r | None \<Rightarrow> True"
    by (auto split: option.split dest!: find_SomeD HasPrefix_length)
  then show ?thesis unfolding spaceLenRev_def using Cons by (auto split: option.splits)
qed

function trimLeftRev :: "string \<Rightarrow> string" where
  "trimLeftRev r = (if spaceLenRev r = 0 then r else trimLeftRev (drop (spaceLenRev r) r))"
  by pat_completeness auto
termination
proof (relation "measure length")
  show "wf (measure length)" by simp
next
  fix r :: string
  assume "spaceLenRev r \<noteq> 0"
  moreover have "spaceLenRev r \<le> length r" by (rule spaceLenRev_le)
  ultimately show "(drop (spaceLenRev r) r, r) \<in> measure length" by simp
qed

declare trimLeftRev.simps [simp del]

definition TrimSpace :: "string \<Rightarrow> string" where
  "TrimSpace s = rev (trimLeftRev (rev (trimLeft s)))"

text \<open>\<^verbatim>\<open>strings.Fields\<close>: the maximal runs of bytes between white-space runes.
  \<open>fieldsFrom cur s\<close> holds the bytes of the field being read in \<open>cur\<close>, reversed.\<close>

function fieldsFrom :: "string \<Rightarrow> string \<Rightarrow> string list" where
  "fieldsFrom cur s =
     (if s = [] then (if cur = [] then [] else [rev cur])
      else if spaceLen s = 0 then fieldsFrom (hd s # cur) (tl s)
      else (if cur = [] then [] else [rev cur]) @ fieldsFrom [] (drop (spaceLen s) s))"
  by pat_completeness auto
termination
proof (relation "measure (\<lambda>(cur, s). length s)")
  show "wf (measure (\<lambda>(cur, s). length s))" by simp
next
  fix cur s :: string
  assume "s \<noteq> []"
  then show "((hd s # cur, tl s), (cur, s)) \<in> measure (\<lambda>(cur, s). length s)" by simp
next
  fix cur s :: string
  assume "s \<noteq> []" and "spaceLen s \<noteq> 0"
  then show "(([], drop (spaceLen s) s), (cur, s)) \<in> measure (\<lambda>(cur, s). length s)" by simp
qed

declare fieldsFrom.simps [simp del]

definition Fields :: "string \<Rightarrow> string list" where
  "Fields s = fieldsFrom [] s"

subsection \<open>Decimal integers: \<^verbatim>\<open>fmt.Sprintf("%d")\<close> and \<^verbatim>\<open>strconv.Atoi\<close>\<close>

definition isDigit :: "char \<Rightarrow> bool" where
  "isDigit c = (48 \<le> ord c \<and> ord c \<le> 57)"

definition digitVal :: "char \<Rightarrow> nat" where
  "digitVal c = ord c - 48"

definition digitChar :: "nat \<Rightarrow> char" where
  "digitChar d = char_of (48 + d)"

fun showNat :: "nat \<Rightarrow> string" where
  "showNat n = (if n < 10 then [digitChar n] else showNat (n div 10) @ [digitChar (n mod 10)])"

declare showNat.simps [simp del]

text \<open>\<^verbatim>\<open>fmt.Sprintf("%d", n)\<close>.\<close>

definition showInt :: "int \<Rightarrow> string" where
  "showInt n = (if n < 0 then CHR ''-'' # showNat (nat (- n)) else showNat (nat n))"

text \<open>
  Go's \<^verbatim>\<open>int\<close> is taken to be 64 bits wide. \<^verbatim>\<open>strconv.Atoi(s)\<close> is
  \<^verbatim>\<open>ParseInt(s, 10, 0)\<close> (its fast path for short strings computes the same result):
  one optional sign, then \<^verbatim>\<open>ParseUint\<close>, which reads the bytes from the left, fails
  with a syntax error (value 0) at the first byte that is not a digit, and with a range
  error (value \<open>2^64 - 1\<close>) as soon as the number read no longer fits 64 bits. On a range
  error \<^verbatim>\<open>ParseInt\<close> returns the nearest bound of \<^verbatim>\<open>int64\<close> together with the error.
\<close>

datatype numError = ErrSyntax | ErrRange

definition maxUint64 :: nat where
  "maxUint64 = 18446744073709551615"

definition maxInt64 :: int where
  "maxInt64 = 9223372036854775807"

definition minInt64 :: int where
  "minInt64 = - 9223372036854775808"

fun parseUintLoop :: "nat \<Rightarrow> string \<Rightarrow> nat \<times> numError option" where
  "parseUintLoop n [] = (n, None)"
| "parseUintLoop n (c # cs) =
     (if \<not> isDigit c then (0, Some ErrSyntax)
      else if n \<ge> maxUint64 div 10 + 1 then (maxUint64, Some ErrRange)
      else if n * 10 + digitVal c > maxUint64 then (maxUint64, Some ErrRange)
      else parseUintLoop (n * 10 + digitVal c) cs)"

definition ParseUint :: "string \<Rightarrow> nat \<times> numError option" where
  "ParseUint s = (if s = [] then (0, Some ErrSyntax) else parseUintLoop 0 s)"

definition ParseInt :: "string \<Rightarrow> int \<times> numError option" where
  "ParseInt s0 =
     (case s0 of
        [] \<Rightarrow> (0, Some ErrSyntax)
      | c # cs \<Rightarrow>
          let neg = (c = CHR ''-'');
              s = (if c = CHR ''+'' \<or> c = CHR ''-'' then cs else s0)
          in (case ParseUint s of
                (un, Some ErrSyntax) \<Rightarrow> (0, Some ErrSyntax)
              | (un, _) \<Rightarrow>
                  if \<not> neg \<and> un \<ge> 9223372036854775808 then (maxInt64, Some ErrRange)
                  else if neg \<and> un > 9223372036854775808 then (minInt64, Some ErrRange)
                  else (if neg then - int un else int un, None)))"

definition Atoi :: "string \<Rightarrow> int \<times> numError option" where
  "Atoi s = ParseInt s"

section \<open>Primitive coercion: \<^verbatim>\<open>parsePrimitive\<close> (decode.go)\<close>

text \<open>The \<^verbatim>\<open>any\<close> that \<^verbatim>\<open>parsePrimitive\<close> returns: \<^verbatim>\<open>nil\<close>, an \<^verbatim>\<open>int\<close>, a
  \<^verbatim>\<open>bool\<close> or a \<^verbatim>\<open>string\<close>.\<close>

datatype prim = PNil | PInt int | PBool bool | PStr string

definition parsePrimitive :: "string \<Rightarrow> string \<Rightarrow> prim" where
  "parsePrimitive s typ =
     (if s = ''~'' then PNil
      else if typ = ''i'' \<or> typ = ''i+'' then PInt (fst (Atoi s))
      else if typ = ''b'' then PBool (s = ''1'' \<or> s = ''y'' \<or> s = ''true'')
      else if s = ''y'' \<or> s = ''n'' then PBool (s = ''y'')
      else (case Atoi s of
              (n, None) \<Rightarrow> PInt n
            | (_, Some _) \<Rightarrow>
                if s = ''true'' \<or> s = ''false'' then PBool (s = ''true'')
                else PStr (ReplaceAll s (CHR ''_'') '' '')))"

subsection \<open>Facts about \<^verbatim>\<open>Atoi\<close>\<close>

lemma ParseInt_cases:
  "ParseInt s = (0, Some ErrSyntax) \<or> ParseInt s = (maxInt64, Some ErrRange) \<or>
   ParseInt s = (minInt64, Some ErrRange) \<or> snd (ParseInt s) = None"
proof (cases s)
  case Nil
  then show ?thesis by (simp add: ParseInt_def)
next
  case (Cons c cs)
  define body where "body = (if c = CHR ''+'' \<or> c = CHR ''-'' then cs else s)"
  define neg where "neg = (c = CHR ''-'')"
  have eq: "ParseInt s =
    (case ParseUint body of
       (un, Some ErrSyntax) \<Rightarrow> (0, Some ErrSyntax)
     | (un, _) \<Rightarrow>
         if \<not> neg \<and> un \<ge> 9223372036854775808 then (maxInt64, Some ErrRange)
         else if neg \<and> un > 9223372036854775808 then (minInt64, Some ErrRange)
         else (if neg then - int un else int un, None))"
    unfolding ParseInt_def body_def neg_def Cons by (simp only: list.case Let_def)
  obtain un e where p: "ParseUint body = (un, e)"
    by (cases "ParseUint body")
  show ?thesis
  proof (cases e)
    case None
    then show ?thesis unfolding eq p by simp
  next
    case (Some err)
    then show ?thesis unfolding eq p by (cases err) simp_all
  qed
qed

lemma Atoi_syntax_zero: "snd (Atoi s) = Some ErrSyntax \<Longrightarrow> fst (Atoi s) = 0"
  using ParseInt_cases [of s] by (auto simp: Atoi_def)

lemma Atoi_range_bound:
  "snd (Atoi s) = Some ErrRange \<Longrightarrow> fst (Atoi s) = maxInt64 \<or> fst (Atoi s) = minInt64"
  using ParseInt_cases [of s] by (auto simp: Atoi_def)

subsection \<open>The cases of \<^verbatim>\<open>parsePrimitive\<close>\<close>

lemma ReplaceAll_map: "ReplaceAll s old [new] = map (\<lambda>c. if c = old then new else c) s"
  by (induction s) (simp_all add: ReplaceAll_def)

lemma parsePrimitive_null: "parsePrimitive ''~'' typ = PNil"
  by (simp add: parsePrimitive_def)

lemma parsePrimitive_int:
  "s \<noteq> ''~'' \<Longrightarrow> typ = ''i'' \<or> typ = ''i+'' \<Longrightarrow> parsePrimitive s typ = PInt (fst (Atoi s))"
  unfolding parsePrimitive_def by (simp only: if_False if_True)

lemma parsePrimitive_bool:
  "s \<noteq> ''~'' \<Longrightarrow> parsePrimitive s ''b'' = PBool (s = ''1'' \<or> s = ''y'' \<or> s = ''true'')"
  unfolding parsePrimitive_def by simp

lemma parsePrimitive_auto:
  assumes "s \<noteq> ''~''" "typ \<noteq> ''i''" "typ \<noteq> ''i+''" "typ \<noteq> ''b''"
  shows "parsePrimitive s typ =
            (if s = ''y'' \<or> s = ''n'' then PBool (s = ''y'')
             else if snd (Atoi s) = None then PInt (fst (Atoi s))
             else if s = ''true'' \<or> s = ''false'' then PBool (s = ''true'')
             else PStr (map (\<lambda>c. if c = CHR ''_'' then CHR '' '' else c) s))"
proof -
  obtain n e where a: "Atoi s = (n, e)" by (cases "Atoi s")
  show ?thesis
    unfolding parsePrimitive_def a ReplaceAll_map using assms
    by (cases e) (simp_all only: if_False if_True prod.case option.case snd_conv fst_conv option.distinct simp_thms)
qed

section \<open>Host values\<close>

text \<open>
  A struct field as \<^verbatim>\<open>reflect\<close> shows it: its name, its \<^verbatim>\<open>zoon\<close> and \<^verbatim>\<open>json\<close>
  tags, and whether it is exported. A value that \<^verbatim>\<open>reflect\<close> obtained through a field
  that is not exported is read-only: \<^verbatim>\<open>Set\<close> and \<^verbatim>\<open>Interface\<close> panic on it, and so
  they do on what \<^verbatim>\<open>Elem\<close> and \<^verbatim>\<open>Field\<close> reach from it. Fields are not embedded.
\<close>

datatype fdecl = Field (fname: string) (ztag: string) (jtag: string) (exported: bool)

datatype gtype = TInt | TBool | TString | TPtr gtype | TStruct "(fdecl \<times> gtype) list"

datatype gval =
    VInt int
  | VBool bool
  | VStr string
  | VPtr gtype "gval option"
  | VStruct "(fdecl \<times> gval) list"

fun zero :: "gtype \<Rightarrow> gval" where
  "zero TInt = VInt 0"
| "zero TBool = VBool False"
| "zero TString = VStr []"
| "zero (TPtr t) = VPtr t None"
| "zero (TStruct fs) = VStruct (map (\<lambda>f. (fst f, zero (snd f))) fs)"

fun typeOf :: "gval \<Rightarrow> gtype" where
  "typeOf (VInt _) = TInt"
| "typeOf (VBool _) = TBool"
| "typeOf (VStr _) = TString"
| "typeOf (VPtr t _) = TPtr t"
| "typeOf (VStruct fs) = TStruct (map (\<lambda>f. (fst f, typeOf (snd f))) fs)"

subsection \<open>Errors\<close>

datatype err =
    ErrNonPointer
  | ErrExpectedHeader
  | ErrMissingHeader
  | ErrExpectsSlice
  | ErrCannotTraverse string
  | ErrUnexpectedEnd string
  | ErrTopLevel
  | Panic

section \<open>Field lookup: \<^verbatim>\<open>findField\<close>\<close>

definition lowerASCII :: "char \<Rightarrow> char" where
  "lowerASCII c = (if 65 \<le> ord c \<and> ord c \<le> 90 then char_of (ord c + 32) else c)"

text \<open>
  \<^verbatim>\<open>strings.EqualFold\<close> compares byte by byte, folding the letters A to Z, as long as
  both bytes are ASCII. From the first byte that is not, it compares the rest of the two
  strings rune by rune under Unicode simple case folding, which it reads from the tables
  of package \<^verbatim>\<open>unicode\<close>: that comparison is the parameter \<open>uf\<close>, of which nothing is
  assumed.
\<close>

type_synonym unicodeFold = "string \<Rightarrow> string \<Rightarrow> bool"

fun EqualFold :: "unicodeFold \<Rightarrow> string \<Rightarrow> string \<Rightarrow> bool" where
  "EqualFold uf [] [] = True"
| "EqualFold uf [] (d # ds) = False"
| "EqualFold uf (c # cs) [] = False"
| "EqualFold uf (c # cs) (d # ds) =
     (if ord c \<ge> 128 \<or> ord d \<ge> 128 then uf (c # cs) (d # ds)
      else if lowerASCII c = lowerASCII d then EqualFold uf cs ds
      else False)"

definition fieldTag :: "fdecl \<Rightarrow> string" where
  "fieldTag f = (if ztag f = [] then jtag f else ztag f)"

definition fieldMatches :: "unicodeFold \<Rightarrow> fdecl \<Rightarrow> string \<Rightarrow> bool" where
  "fieldMatches uf f name =
     ((fieldTag f \<noteq> [] \<and> hd (Split (fieldTag f) (CHR '','')) = name) \<or> EqualFold uf (fname f) name)"

fun findField :: "unicodeFold \<Rightarrow> (fdecl \<times> 'a) list \<Rightarrow> string \<Rightarrow> nat option" where
  "findField uf [] name = None"
| "findField uf (f # fs) name =
     (if fieldMatches uf (fst f) name then Some 0 else map_option Suc (findField uf fs name))"

section \<open>The inline grammar: \<^verbatim>\<open>inlineParser.parse\<close>\<close>

datatype inlinePair = InlinePair (pkey: string) (psep: string) (pval: string)

fun braceScan :: "nat \<Rightarrow> string \<Rightarrow> string \<times> string" where
  "braceScan depth [] = ([], [])"
| "braceScan depth (c # cs) =
     (if depth = 0 then ([], c # cs)
      else let d1 = (if c = CHR ''{'' then depth + 1 else depth);
               d2 = (if c = CHR ''}'' then d1 - 1 else d1);
               r = braceScan d2 cs
           in (c # fst r, snd r))"

definition isKeyEnd :: "char \<Rightarrow> bool" where
  "isKeyEnd c = (c = CHR '':'' \<or> c = CHR ''='' \<or> c = CHR '' '')"

definition isInlineSpace :: "char \<Rightarrow> bool" where
  "isInlineSpace c = (c = CHR '' '' \<or> c = CHR 0x0A)"

definition readValue :: "string \<Rightarrow> string \<times> string" where
  "readValue s =
     (case s of
        c # cs \<Rightarrow>
          if c = CHR ''{'' then (let r = braceScan 1 cs in (c # fst r, snd r))
          else (takeWhile (\<lambda>x. x \<noteq> CHR '' '') s, dropWhile (\<lambda>x. x \<noteq> CHR '' '') s)
      | [] \<Rightarrow> ([], []))"

lemma braceScan_length: "length (fst (braceScan d s)) + length (snd (braceScan d s)) = length s"
  by (induction s arbitrary: d) (simp_all add: Let_def)

lemma readValue_length: "length (fst (readValue s)) + length (snd (readValue s)) = length s"
proof (cases s)
  case Nil
  then show ?thesis by (simp add: readValue_def)
next
  case (Cons c cs)
  have "length (takeWhile (\<lambda>x. x \<noteq> CHR '' '') s) + length (dropWhile (\<lambda>x. x \<noteq> CHR '' '') s) = length s"
    by (metis length_append takeWhile_dropWhile_id)
  then show ?thesis using Cons braceScan_length [of 1 cs]
    by (simp add: readValue_def Let_def del: takeWhile.simps dropWhile.simps)
qed

function parse :: "string \<Rightarrow> err + inlinePair list" where
  "parse input =
     (let s1 = dropWhile isInlineSpace input in
      if s1 = [] then Inr []
      else
        let k = takeWhile (\<lambda>c. \<not> isKeyEnd c) s1;
            s2 = dropWhile (\<lambda>c. \<not> isKeyEnd c) s1
        in (case s2 of
              [] \<Rightarrow> Inl (ErrUnexpectedEnd k)
            | sp # s3 \<Rightarrow>
                (case parse (snd (readValue s3)) of
                   Inl e \<Rightarrow> Inl e
                 | Inr ps \<Rightarrow> Inr (InlinePair k [sp] (fst (readValue s3)) # ps))))"
  by pat_completeness auto
termination
proof (relation "measure length")
  show "wf (measure length)" by simp
next
  fix input s1 k s2 :: string and sp :: char and s3 :: string
  assume a: "s1 = dropWhile isInlineSpace input"
    and b: "s2 = dropWhile (\<lambda>c. \<not> isKeyEnd c) s1"
    and c: "s2 = sp # s3"
  have "length (snd (readValue s3)) \<le> length s3"
    using readValue_length [of s3] by simp
  moreover have "length s3 < length s2" using c by simp
  moreover have "length s2 \<le> length s1" unfolding b by (rule length_dropWhile_le)
  moreover have "length s1 \<le> length input" unfolding a by (rule length_dropWhile_le)
  ultimately show "(snd (readValue s3), input) \<in> measure length" by simp
qed

declare parse.simps [simp del]

section \<open>The row tokenizer: \<^verbatim>\<open>tokenizeRow\<close>\<close>

text \<open>\<open>quoteScan s\<close> reads the bytes after an opening double quote: the bytes consumed
  up to and with the closing quote (a backslash takes the next byte with it), and the rest
  of the line.\<close>

fun quoteScan :: "string \<Rightarrow> string \<times> string" where
  "quoteScan [] = ([], [])"
| "quoteScan [c] = ([c], [])"
| "quoteScan (c # d # ds) =
     (if c = CHR 0x5C then (let r = quoteScan ds in (c # d # fst r, snd r))
      else if c = CHR 0x22 then ([c], d # ds)
      else (let r = quoteScan (d # ds) in (c # fst r, snd r)))"

lemma quoteScan_length: "length (fst (quoteScan s)) + length (snd (quoteScan s)) = length s"
  by (induction s rule: quoteScan.induct) (simp_all add: Let_def)

text \<open>The slice expressions \<^verbatim>\<open>line[i+1:end-1]\<close> (a quoted run that ends where it
  starts) and \<^verbatim>\<open>line[i:end+1]\<close> (a bracket that is never closed) are out of range:
  the Go code panics, and the model returns \<open>None\<close>.\<close>

function tokenizeRow :: "string \<Rightarrow> string list option" where
  "tokenizeRow line =
     (let s = dropWhile (\<lambda>c. c = CHR '' '') line in
      case s of
        [] \<Rightarrow> Some []
      | c # cs \<Rightarrow>
          if c = CHR 0x22 then
            (if fst (quoteScan cs) = [] then None
             else map_option (Cons (butlast (fst (quoteScan cs)))) (tokenizeRow (snd (quoteScan cs))))
          else if c = CHR ''['' then
            (case dropWhile (\<lambda>x. x \<noteq> CHR '']'') cs of
               [] \<Rightarrow> None
             | b # rest \<Rightarrow>
                 map_option (Cons (c # takeWhile (\<lambda>x. x \<noteq> CHR '']'') cs @ [b])) (tokenizeRow rest))
          else map_option (Cons (takeWhile (\<lambda>x. x \<noteq> CHR '' '') s))
                 (tokenizeRow (dropWhile (\<lambda>x. x \<noteq> CHR '' '') s)))"
  by pat_completeness auto
termination
proof (relation "measure length")
  show "wf (measure length)" by simp
next
  fix line s :: string and c :: char and cs :: string
  assume a: "s = dropWhile (\<lambda>c. c = CHR '' '') line" and b: "s = c # cs"
  have "length (snd (quoteScan cs)) \<le> length cs" using quoteScan_length [of cs] by simp
  moreover have "length cs < length s" using b by simp
  moreover have "length s \<le> length line" unfolding a by (rule length_dropWhile_le)
  ultimately show "(snd (quoteScan cs), line) \<in> measure length" by simp
next
  fix line s :: string and c b :: char and cs rest :: string
  assume a: "s = dropWhile (\<lambda>c. c = CHR '' '') line" and b: "s = c # cs"
    and d: "dropWhile (\<lambda>x. x \<noteq> CHR '']'') cs = b # rest"
  have "length (dropWhile (\<lambda>x. x \<noteq> CHR '']'') cs) \<le> length cs" by (rule length_dropWhile_le)
  then have "length rest < length cs" unfolding d by simp
  moreover have "length cs < length s" using b by simp
  moreover have "length s \<le> length line" unfolding a by (rule length_dropWhile_le)
  ultimately show "(rest, line) \<in> measure length" by simp
next
  fix line s :: string and c :: char and cs :: string
  assume a: "s = dropWhile (\<lambda>c. c = CHR '' '') line" and b: "s = c # cs"
    and n: "c \<noteq> CHR 0x22" "c \<noteq> CHR ''[''"
  have "c \<noteq> CHR '' ''"
  proof
    assume "c = CHR '' ''"
    moreover have "s \<noteq> []" using b by simp
    then have "\<not> (hd s = CHR '' '')" unfolding a by (rule hd_dropWhile)
    ultimately show False using b by simp
  qed
  then have "dropWhile (\<lambda>x. x \<noteq> CHR '' '') s = dropWhile (\<lambda>x. x \<noteq> CHR '' '') cs"
    using b by simp
  moreover have "length (dropWhile (\<lambda>x. x \<noteq> CHR '' '') cs) \<le> length cs" by (rule length_dropWhile_le)
  moreover have "length cs < length s" using b by simp
  moreover have "length s \<le> length line" unfolding a by (rule length_dropWhile_le)
  ultimately show "(dropWhile (\<lambda>x. x \<noteq> CHR '' '') s, line) \<in> measure length" by simp
qed

declare tokenizeRow.simps [simp del]

section \<open>Assignment into host values: \<^verbatim>\<open>deref\<close>, \<^verbatim>\<open>setField\<close>, \<^verbatim>\<open>setDeepField\<close>\<close>

text \<open>
  \<^verbatim>\<open>deref\<close> allocates a nil pointer's target and returns the target. The Go code
  mutates the target in place; the model returns the new value of what it was given:
  \<open>derefVal\<close> is the target and \<open>rewrap\<close> puts a new target back behind the pointer.
\<close>

definition derefVal :: "gval \<Rightarrow> gval" where
  "derefVal v = (case v of VPtr t p \<Rightarrow> (case p of None \<Rightarrow> zero t | Some x \<Rightarrow> x) | _ \<Rightarrow> v)"

definition rewrap :: "gval \<Rightarrow> gval \<Rightarrow> gval" where
  "rewrap v r = (case v of VPtr t p \<Rightarrow> VPtr t (Some r) | _ \<Rightarrow> r)"

text \<open>The \<^verbatim>\<open>v.Set\<close> of \<^verbatim>\<open>deref\<close> panics when the nil pointer is read-only.\<close>

definition derefPanics :: "bool \<Rightarrow> gval \<Rightarrow> bool" where
  "derefPanics ro v = (ro \<and> (case v of VPtr t None \<Rightarrow> True | _ \<Rightarrow> False))"

text \<open>\<^verbatim>\<open>string(rune(n))\<close>, the conversion \<^verbatim>\<open>reflect\<close> uses from an integer to a string:
  the UTF-8 encoding of the code point, U+FFFD for an integer that is none.\<close>

definition runeToString :: "int \<Rightarrow> string" where
  "runeToString n =
     (if n < 0 \<or> n > 0x10FFFF \<or> (0xD800 \<le> n \<and> n \<le> 0xDFFF) then [CHR 0xEF, CHR 0xBF, CHR 0xBD]
      else if n < 0x80 then [char_of n]
      else if n < 0x800 then [char_of (0xC0 + n div 64), char_of (0x80 + n mod 64)]
      else if n < 0x10000 then
        [char_of (0xE0 + n div 4096), char_of (0x80 + (n div 64) mod 64), char_of (0x80 + n mod 64)]
      else [char_of (0xF0 + n div 262144), char_of (0x80 + (n div 4096) mod 64),
            char_of (0x80 + (n div 64) mod 64), char_of (0x80 + n mod 64)])"

text \<open>\<^verbatim>\<open>rVal.Type().ConvertibleTo(field.Type())\<close> and \<^verbatim>\<open>rVal.Convert\<close>, for the values
  \<^verbatim>\<open>parsePrimitive\<close> returns.\<close>

fun convertTo :: "prim \<Rightarrow> gtype \<Rightarrow> gval option" where
  "convertTo (PInt n) TInt = Some (VInt n)"
| "convertTo (PInt n) TString = Some (VStr (runeToString n))"
| "convertTo (PBool b) TBool = Some (VBool b)"
| "convertTo (PStr s) TString = Some (VStr s)"
| "convertTo _ _ = None"

fun pairsWeight :: "inlinePair list \<Rightarrow> nat" where
  "pairsWeight [] = 0"
| "pairsWeight (p # ps) = Suc (length (pval p)) + pairsWeight ps"

lemma parse_weight: "parse input = Inr ps \<Longrightarrow> pairsWeight ps \<le> length input"
proof (induction input arbitrary: ps rule: parse.induct)
  case (1 input)
  define s1 where "s1 = dropWhile isInlineSpace input"
  define s2 where "s2 = dropWhile (\<lambda>c. \<not> isKeyEnd c) s1"
  have l1: "length s1 \<le> length input" unfolding s1_def by (rule length_dropWhile_le)
  have l2: "length s2 \<le> length s1" unfolding s2_def by (rule length_dropWhile_le)
  show ?case
  proof (cases "s1 = []")
    case True
    then have "parse input = Inr []" by (subst parse.simps) (simp add: s1_def Let_def)
    then show ?thesis using "1.prems" by simp
  next
    case False
    show ?thesis
    proof (cases s2)
      case Nil
      then have "parse input = Inl (ErrUnexpectedEnd (takeWhile (\<lambda>c. \<not> isKeyEnd c) s1))"
        using False by (subst parse.simps) (simp add: s1_def [symmetric] s2_def [symmetric] Let_def)
      then show ?thesis using "1.prems" by simp
    next
      case (Cons sp s3)
      have eq: "parse input =
          (case parse (snd (readValue s3)) of
             Inl e \<Rightarrow> Inl e
           | Inr qs \<Rightarrow> Inr (InlinePair (takeWhile (\<lambda>c. \<not> isKeyEnd c) s1) [sp] (fst (readValue s3)) # qs))"
        using False Cons by (subst parse.simps) (simp add: s1_def [symmetric] s2_def [symmetric] Let_def)
      then obtain qs where q: "parse (snd (readValue s3)) = Inr qs"
        and p: "ps = InlinePair (takeWhile (\<lambda>c. \<not> isKeyEnd c) s1) [sp] (fst (readValue s3)) # qs"
        using "1.prems" by (cases "parse (snd (readValue s3))") auto
      have "pairsWeight qs \<le> length (snd (readValue s3))"
        using "1.IH" [OF s1_def False refl s2_def Cons q] .
      moreover have "length (fst (readValue s3)) + length (snd (readValue s3)) = length s3"
        by (rule readValue_length)
      moreover have "length s2 = Suc (length s3)" using Cons by simp
      ultimately show ?thesis using p l1 l2 by simp
    qed
  qed
qed

lemma ReplaceAll_single: "ReplaceAll s old [new] = map (\<lambda>c. if c = old then new else c) s"
  by (induction s) (simp_all add: ReplaceAll_def)

lemma ReplaceAll_single_length [simp]: "length (ReplaceAll s old [new]) = length s"
  by (simp add: ReplaceAll_single)

text \<open>
  \<open>setDeepParts uf ro current parts typ valStr\<close> is the loop of \<^verbatim>\<open>setDeepField\<close>
  over the segments of the path, \<open>setField\<close> is \<^verbatim>\<open>setField\<close>, and \<open>setPairs\<close> is
  the loop over the pairs of a brace-delimited value, which drops the errors of the
  assignments (a panic is not an error value and stops everything). Each returns the new
  value of its first argument and the error, if any. The flag \<open>ro\<close> says that the value
  at hand is read-only: it is set on the way through a field that is not exported, and
  every \<^verbatim>\<open>Set\<close> on such a value panics.
\<close>

function setDeepParts ::
    "unicodeFold \<Rightarrow> bool \<Rightarrow> gval \<Rightarrow> string list \<Rightarrow> string \<Rightarrow> string \<Rightarrow> gval \<times> err option"
  and setField ::
    "unicodeFold \<Rightarrow> bool \<Rightarrow> gval \<Rightarrow> string \<Rightarrow> string \<Rightarrow> string \<Rightarrow> gval \<times> err option"
  and setPairs :: "unicodeFold \<Rightarrow> gval \<Rightarrow> inlinePair list \<Rightarrow> gval \<times> err option"
where
  "setDeepParts uf ro current [] typ valStr = (current, None)"
| "setDeepParts uf ro current [part] typ valStr =
     (if derefPanics ro current then (current, Some Panic)
      else
        let r = setField uf ro (derefVal current) part typ valStr
        in (rewrap current (fst r), snd r))"
| "setDeepParts uf ro current (part # q # rest) typ valStr =
     (if derefPanics ro current then (current, Some Panic)
      else
        (case derefVal current of
           VStruct fs \<Rightarrow>
             (case findField uf fs part of
                None \<Rightarrow> (rewrap current (VStruct fs), None)
              | Some i \<Rightarrow>
                  let r = setDeepParts uf (ro \<or> \<not> exported (fst (fs ! i))) (snd (fs ! i))
                            (q # rest) typ valStr
                  in (rewrap current (VStruct (fs[i := (fst (fs ! i), fst r)])), snd r))
         | VInt n \<Rightarrow> (rewrap current (VInt n), Some (ErrCannotTraverse part))
         | VBool b \<Rightarrow> (rewrap current (VBool b), Some (ErrCannotTraverse part))
         | VStr s \<Rightarrow> (rewrap current (VStr s), Some (ErrCannotTraverse part))
         | VPtr t p \<Rightarrow> (rewrap current (VPtr t p), Some (ErrCannotTraverse part))))"
| "setField uf ro dest name typ valStr =
     (if derefPanics ro dest then (dest, Some Panic)
      else
        (case derefVal dest of
           VStruct fs \<Rightarrow>
             (case findField uf fs name of
                None \<Rightarrow> (rewrap dest (VStruct fs), None)
              | Some i \<Rightarrow>
                  if HasPrefix valStr ''{'' then
                    (if length valStr < 2 then (rewrap dest (VStruct fs), Some Panic)
                     else
                       let inner = take (length valStr - 2) (drop 1 valStr);
                           pairs = (case parse inner of Inl e \<Rightarrow> [] | Inr ps \<Rightarrow> ps);
                           r = setPairs uf (zero (typeOf (snd (fs ! i)))) pairs
                       in if snd r = Some Panic \<or> ro \<or> \<not> exported (fst (fs ! i))
                          then (rewrap dest (VStruct fs), Some Panic)
                          else (rewrap dest (VStruct (fs[i := (fst (fs ! i), fst r)])), None))
                  else
                    (case parsePrimitive valStr typ of
                       PNil \<Rightarrow>
                         if ro \<or> \<not> exported (fst (fs ! i))
                         then (rewrap dest (VStruct fs), Some Panic)
                         else (rewrap dest
                                 (VStruct (fs[i := (fst (fs ! i), zero (typeOf (snd (fs ! i))))])),
                               None)
                     | converted \<Rightarrow>
                         (case convertTo converted (typeOf (snd (fs ! i))) of
                            None \<Rightarrow> (rewrap dest (VStruct fs), None)
                          | Some v \<Rightarrow>
                              if ro \<or> \<not> exported (fst (fs ! i))
                              then (rewrap dest (VStruct fs), Some Panic)
                              else (rewrap dest (VStruct (fs[i := (fst (fs ! i), v)])), None))))
         | VInt n \<Rightarrow> (rewrap dest (VInt n), None)
         | VBool b \<Rightarrow> (rewrap dest (VBool b), None)
         | VStr s \<Rightarrow> (rewrap dest (VStr s), None)
         | VPtr t p \<Rightarrow> (rewrap dest (VPtr t p), None)))"
| "setPairs uf elem [] = (elem, None)"
| "setPairs uf elem (p # ps) =
     (let v = (if psep p = ''='' then ReplaceAll (pval p) (CHR ''_'') '' '' else pval p);
          r = setDeepParts uf False elem (Split (pkey p) (CHR ''.'')) ''auto'' v
      in if snd r = Some Panic then r else setPairs uf (fst r) ps)"
  by pat_completeness auto
termination
proof (relation "measures [
    (\<lambda>x. case x of
       Inl (u, b, c, ps, t, v) \<Rightarrow> length v
     | Inr (Inl (u, b, d, n, t, v)) \<Rightarrow> length v
     | Inr (Inr (u, e, ps)) \<Rightarrow> pairsWeight ps),
    (\<lambda>x. case x of
       Inl (u, b, c, ps, t, v) \<Rightarrow> Suc (length ps)
     | Inr (Inl (u, b, d, n, t, v)) \<Rightarrow> 0
     | Inr (Inr (u, e, ps)) \<Rightarrow> 0)]", goal_cases)
  case 1
  show ?case by simp
next
  case 2
  show ?case by simp
next
  case 3
  show ?case by simp
next
  case (4 ro dest uf name ty valStr fs i inner pairs)
  have "pairsWeight pairs \<le> length inner"
  proof (cases "parse inner")
    case (Inl e)
    then show ?thesis using 4 by simp
  next
    case (Inr ps)
    then show ?thesis using 4 parse_weight [of inner ps] by simp
  qed
  moreover have "length inner < length valStr" using 4 by simp
  ultimately show ?case by simp
next
  case (5 uf elem p ps v)
  then show ?case by (simp split: if_splits)
next
  case (6 uf elem p ps v r)
  show ?case by simp
qed

declare setField.simps [simp del]

text \<open>The value \<^verbatim>\<open>setDeepField\<close> is called on is a fresh element or the variable
  behind the caller's pointer: it is not read-only.\<close>

definition setDeepField ::
  "unicodeFold \<Rightarrow> gval \<Rightarrow> string \<Rightarrow> string \<Rightarrow> string \<Rightarrow> gval \<times> err option" where
  "setDeepField uf dest path typ valStr =
     setDeepParts uf False dest (Split path (CHR ''.'')) typ valStr"

section \<open>The tabular decoder: \<^verbatim>\<open>decodeTabular\<close>\<close>

text \<open>
  \<^verbatim>\<open>bufio.Scanner\<close> with the default split function yields the lines of the input without
  their line ends (a final empty line is none), and stops for good at a line that does not
  fit its buffer of \<^verbatim>\<open>MaxScanTokenSize\<close> bytes; the decoder never looks at the scanner's
  error.
\<close>

definition maxScanTokenSize :: nat where
  "maxScanTokenSize = 65536"

definition dropCR :: "string \<Rightarrow> string" where
  "dropCR l = (if l \<noteq> [] \<and> last l = CHR 0x0D then butlast l else l)"

definition scanLines :: "string \<Rightarrow> string list" where
  "scanLines data =
     (let ls = Split data (CHR 0x0A);
          ls' = (if last ls = [] then butlast ls else ls)
      in map dropCR (takeWhile (\<lambda>l. length l < maxScanTokenSize) ls'))"

record headerField =
  hf_name :: string
  hf_typ :: string
  hf_val :: string
  hf_indexed :: bool
  hf_options :: "string list"

text \<open>The alias table \<^verbatim>\<open>map[string]string\<close> is an association list, read with
  \<open>map_of\<close>: an assignment puts its pair in front. The loop below is over the parts of
  an alias line; \<^verbatim>\<open>p[1:idx]\<close> panics for a part that starts with \<^verbatim>\<open>=\<close>: \<open>None\<close>.\<close>

fun addAliases :: "(string \<times> string) list \<Rightarrow> string list \<Rightarrow> (string \<times> string) list option" where
  "addAliases aliases [] = Some aliases"
| "addAliases aliases (p # ps) =
     (case Index p (CHR ''='') of
        None \<Rightarrow> addAliases aliases ps
      | Some idx \<Rightarrow>
          if idx = 0 then None
          else
            let alias = drop 1 (take idx p);
                prefix = drop (idx + 1) p;
                alias' = (if HasPrefix alias ''%'' then drop 1 alias else alias)
            in addAliases ((alias', prefix) # aliases) ps)"

text \<open>The first loop over the lines: the alias table, the header line (empty when there
  is none) and the lines after it.\<close>

fun scanHeader ::
  "(string \<times> string) list \<Rightarrow> string list \<Rightarrow> err + ((string \<times> string) list \<times> string \<times> string list)" where
  "scanHeader aliases [] = Inr (aliases, [], [])"
| "scanHeader aliases (l # ls) =
     (let line = TrimSpace l in
      if line = [] then scanHeader aliases ls
      else if HasPrefix line ''%'' then
        (case addAliases aliases (Fields line) of
           None \<Rightarrow> Inl Panic
         | Some aliases' \<Rightarrow> scanHeader aliases' ls)
      else if HasPrefix line ''#'' then Inr (aliases, line, ls)
      else Inl ErrExpectedHeader)"

definition unalias :: "(string \<times> string) list \<Rightarrow> string \<Rightarrow> string" where
  "unalias aliases name =
     (if HasPrefix name ''%'' then
        (case Index name (CHR ''.'') of
           Some dotIdx \<Rightarrow>
             (case map_of aliases (drop 1 (take dotIdx name)) of
                Some prefix \<Rightarrow> prefix @ ''.'' @ drop (dotIdx + 1) name
              | None \<Rightarrow> name)
         | None \<Rightarrow>
             (case map_of aliases (drop 1 name) of
                Some prefix \<Rightarrow> prefix
              | None \<Rightarrow> name))
      else name)"

text \<open>One pass of the loop over the header's parts; the state is \<^verbatim>\<open>headers\<close>,
  \<^verbatim>\<open>constants\<close> and \<^verbatim>\<open>explicitRows\<close>.\<close>

definition headerStep ::
  "(string \<times> string) list \<Rightarrow> headerField list \<times> headerField list \<times> int \<Rightarrow> string
     \<Rightarrow> headerField list \<times> headerField list \<times> int" where
  "headerStep aliases st part0 =
     (case st of (headers, constants, explicitRows) \<Rightarrow>
        if HasPrefix part0 ''+'' then
          (case Atoi (drop 1 part0) of
             (n, None) \<Rightarrow> (headers, constants, n)
           | (n, Some e) \<Rightarrow> (headers, constants, explicitRows))
        else
          let isConst = HasPrefix part0 ''@'';
              part = (if isConst then drop 1 part0 else part0)
          in (case IndexAny part '':=!'' of
                None \<Rightarrow> (headers, constants, explicitRows)
              | Some sepIdx \<Rightarrow>
                  let name = unalias aliases (take sepIdx part);
                      sep = hd (drop sepIdx part);
                      suffix = tl (drop sepIdx part)
                  in if isConst then
                       (headers,
                        constants @
                          [if sep = CHR ''=''
                           then \<lparr>hf_name = name, hf_typ = ''s'',
                                 hf_val = ReplaceAll suffix (CHR ''_'') '' '',
                                 hf_indexed = False, hf_options = []\<rparr>
                           else \<lparr>hf_name = name, hf_typ = ''inferred'', hf_val = suffix,
                                 hf_indexed = False, hf_options = []\<rparr>],
                        explicitRows)
                     else
                       (headers @
                          [if sep = CHR ''=''
                           then \<lparr>hf_name = name, hf_typ = ''s'', hf_val = [],
                                 hf_indexed = False, hf_options = Split suffix (CHR ''|'')\<rparr>
                           else if sep = CHR ''!''
                           then \<lparr>hf_name = name, hf_typ = ''s'', hf_val = [],
                                 hf_indexed = True, hf_options = Split suffix (CHR ''|'')\<rparr>
                           else \<lparr>hf_name = name, hf_typ = suffix, hf_val = [],
                                 hf_indexed = False, hf_options = []\<rparr>],
                        constants, explicitRows)))"

definition parseHeader ::
  "(string \<times> string) list \<Rightarrow> string list \<Rightarrow> headerField list \<times> headerField list \<times> int" where
  "parseHeader aliases headerParts = foldl (headerStep aliases) ([], [], - 1) headerParts"

text \<open>\<^verbatim>\<open>processRow\<close>: the constants first, then the columns. \<open>applyHeaders\<close> carries
  the row tokens not yet consumed (\<^verbatim>\<open>vals[valIdx:]\<close>) and the counter \<^verbatim>\<open>autoIncID\<close>.\<close>

fun applyConstants :: "unicodeFold \<Rightarrow> headerField list \<Rightarrow> gval \<Rightarrow> gval \<times> err option" where
  "applyConstants uf [] newElem = (newElem, None)"
| "applyConstants uf (c # cs) newElem =
     (let r = setDeepField uf newElem (hf_name c) ''auto'' (hf_val c)
      in if snd r \<noteq> None then r else applyConstants uf cs (fst r))"

definition indexedValue :: "headerField \<Rightarrow> string \<Rightarrow> string" where
  "indexedValue h valStr =
     (if hf_indexed h \<and> length (hf_options h) > 0 then
        (case Atoi valStr of
           (idx, None) \<Rightarrow>
             if idx \<ge> 0 \<and> idx < int (length (hf_options h)) then hf_options h ! nat idx else valStr
         | (idx, Some e) \<Rightarrow> valStr)
      else valStr)"

fun applyHeaders ::
  "unicodeFold \<Rightarrow> headerField list \<Rightarrow> string list \<Rightarrow> int \<Rightarrow> gval
     \<Rightarrow> (gval \<times> int) \<times> err option" where
  "applyHeaders uf [] vals autoIncID newElem = ((newElem, autoIncID), None)"
| "applyHeaders uf (h # hs) vals autoIncID newElem =
     (let autoIncID' = (if hf_typ h = ''i+'' then autoIncID + 1 else autoIncID);
          valStr = (if hf_typ h = ''i+'' then showInt autoIncID'
                    else (case vals of [] \<Rightarrow> ''~'' | v # vs \<Rightarrow> v));
          vals' = (if hf_typ h = ''i+'' then vals else drop 1 vals)
      in if valStr = ''~'' then applyHeaders uf hs vals' autoIncID' newElem
         else
           let r = setDeepField uf newElem (hf_name h) (hf_typ h) (indexedValue h valStr)
           in if snd r \<noteq> None then ((fst r, autoIncID'), snd r)
              else applyHeaders uf hs vals' autoIncID' (fst r))"

text \<open>The state of the row loops: the rows appended to the slice so far and the
  counter.\<close>

definition processRow ::
  "unicodeFold \<Rightarrow> gtype \<Rightarrow> bool \<Rightarrow> headerField list \<Rightarrow> headerField list \<Rightarrow> gval list \<times> int
     \<Rightarrow> string list \<Rightarrow> (gval list \<times> int) \<times> err option" where
  "processRow uf elemType isPtr constants headers st vals =
     (case st of (rows, autoIncID) \<Rightarrow>
        let c = applyConstants uf constants (zero elemType) in
        if snd c \<noteq> None then ((rows, autoIncID), snd c)
        else
          let h = applyHeaders uf headers vals autoIncID (fst c) in
          if snd h \<noteq> None then ((rows, snd (fst h)), snd h)
          else
            ((rows @ [if isPtr then VPtr elemType (Some (fst (fst h))) else fst (fst h)],
              snd (fst h)), None))"

fun explicitLoop ::
  "unicodeFold \<Rightarrow> nat \<Rightarrow> gtype \<Rightarrow> bool \<Rightarrow> headerField list \<Rightarrow> headerField list
     \<Rightarrow> gval list \<times> int \<Rightarrow> (gval list \<times> int) \<times> err option" where
  "explicitLoop uf 0 elemType isPtr constants headers st = (st, None)"
| "explicitLoop uf (Suc n) elemType isPtr constants headers st =
     (let r = processRow uf elemType isPtr constants headers st []
      in if snd r \<noteq> None then r
         else explicitLoop uf n elemType isPtr constants headers (fst r))"

fun dataLoop ::
  "unicodeFold \<Rightarrow> string list \<Rightarrow> gtype \<Rightarrow> bool \<Rightarrow> headerField list \<Rightarrow> headerField list
     \<Rightarrow> gval list \<times> int \<Rightarrow> (gval list \<times> int) \<times> err option" where
  "dataLoop uf [] elemType isPtr constants headers st = (st, None)"
| "dataLoop uf (l # ls) elemType isPtr constants headers st =
     (let line = TrimSpace l in
      if line = [] then dataLoop uf ls elemType isPtr constants headers st
      else
        (case tokenizeRow line of
           None \<Rightarrow> (st, Some Panic)
         | Some vals \<Rightarrow>
             let r = processRow uf elemType isPtr constants headers st vals
             in if snd r \<noteq> None then r
                else dataLoop uf ls elemType isPtr constants headers (fst r)))"

text \<open>
  What a top-level value is: a slice (its element type and its elements) or a single
  value. \<open>decodeTabular uf data tgt\<close> returns the new value of the variable behind the
  pointer and the error; the variable is written as the rows are appended, so the rows
  read before an error stay in it.
\<close>

datatype top = Slice gtype "gval list" | Single gval

definition decodeTabular :: "unicodeFold \<Rightarrow> string \<Rightarrow> top \<Rightarrow> top \<times> err option" where
  "decodeTabular uf data tgt =
     (case scanHeader [] (scanLines data) of
        Inl e \<Rightarrow> (tgt, Some e)
      | Inr (aliases, headerLine, rest) \<Rightarrow>
          if headerLine = [] then (tgt, Some ErrMissingHeader)
          else if length headerLine < 2 then (tgt, Some Panic)
          else
            (case parseHeader aliases (Fields (drop 2 headerLine)) of
               (headers, constants, explicitRows) \<Rightarrow>
                 (case tgt of
                    Single v \<Rightarrow> (tgt, Some ErrExpectsSlice)
                  | Slice ty old \<Rightarrow>
                      let elemType = (case ty of TPtr t \<Rightarrow> t | _ \<Rightarrow> ty);
                          isPtr = (case ty of TPtr t \<Rightarrow> True | _ \<Rightarrow> False);
                          r1 = (if explicitRows > 0
                                then explicitLoop uf (nat explicitRows) elemType isPtr constants headers ([], 0)
                                else (([], 0), None))
                      in if snd r1 \<noteq> None then (Slice ty (fst (fst r1)), snd r1)
                         else
                           let r2 = dataLoop uf rest elemType isPtr constants headers (fst r1)
                           in (Slice ty (fst (fst r2)), snd r2))))"

section \<open>The inline decoder and the entry point\<close>

fun inlineLoop :: "unicodeFold \<Rightarrow> gval \<Rightarrow> inlinePair list \<Rightarrow> gval \<times> err option" where
  "inlineLoop uf target [] = (target, None)"
| "inlineLoop uf target (p # ps) =
     (let v = (if psep p = ''='' then ReplaceAll (pval p) (CHR ''_'') '' '' else pval p);
          r = setDeepField uf target (pkey p) ''auto'' v
      in if snd r \<noteq> None then r else inlineLoop uf (fst r) ps)"

text \<open>On a slice \<^verbatim>\<open>setDeepField\<close> writes nothing: a one-segment path is dropped by
  \<^verbatim>\<open>setField\<close> (the value is neither a map nor a struct), a longer path cannot be
  traversed.\<close>

fun inlineLoopSlice :: "inlinePair list \<Rightarrow> err option" where
  "inlineLoopSlice [] = None"
| "inlineLoopSlice (p # ps) =
     (case Split (pkey p) (CHR ''.'') of
        part # q # rest \<Rightarrow> Some (ErrCannotTraverse part)
      | _ \<Rightarrow> inlineLoopSlice ps)"

definition decodeInline :: "unicodeFold \<Rightarrow> string \<Rightarrow> top \<Rightarrow> top \<times> err option" where
  "decodeInline uf data tgt =
     (case tgt of
        Single v \<Rightarrow>
          (case parse data of
             Inl e \<Rightarrow> (Single (rewrap v (derefVal v)), Some e)
           | Inr pairs \<Rightarrow>
               let r = inlineLoop uf (derefVal v) pairs
               in (Single (rewrap v (fst r)), snd r))
      | Slice ty rows \<Rightarrow>
          (case parse data of
             Inl e \<Rightarrow> (tgt, Some e)
           | Inr pairs \<Rightarrow> (tgt, inlineLoopSlice pairs)))"

text \<open>The argument of \<^verbatim>\<open>Unmarshal\<close>: something that is no pointer, a nil pointer, or
  a pointer to a variable.\<close>

datatype target = NotPointer | NilPointer | PointerTo top

definition decode :: "unicodeFold \<Rightarrow> string \<Rightarrow> target \<Rightarrow> target \<times> err option" where
  "decode uf input v =
     (case v of
        NotPointer \<Rightarrow> (v, Some ErrNonPointer)
      | NilPointer \<Rightarrow> (v, Some ErrNonPointer)
      | PointerTo tgt \<Rightarrow>
          let data = TrimSpace input in
          if length data = 0 then (v, None)
          else if hd data = CHR ''#'' \<or> hd data = CHR ''%'' then
            (let r = decodeTabular uf data tgt in (PointerTo (fst r), snd r))
          else
            (let r = decodeInline uf data tgt in (PointerTo (fst r), snd r)))"

definition Unmarshal :: "unicodeFold \<Rightarrow> string \<Rightarrow> target \<Rightarrow> target \<times> err option" where
  "Unmarshal uf data v = decode uf data v"

section \<open>The encoder\<close>

subsection \<open>Flattening: \<^verbatim>\<open>flattenValue\<close>\<close>

text \<open>
  The name a field is exposed under: the first part of its tag (the \<^verbatim>\<open>zoon\<close> tag, or
  the \<^verbatim>\<open>json\<close> tag when there is none), or the field's name when that part is empty.
  A field whose tag is \<^verbatim>\<open>-\<close> is left out.
\<close>

definition exposedName :: "fdecl \<Rightarrow> string" where
  "exposedName f =
     (if hd (Split (fieldTag f) (CHR '','')) \<noteq> [] then hd (Split (fieldTag f) (CHR '','')) else fname f)"

definition newKey :: "string \<Rightarrow> string \<Rightarrow> string" where
  "newKey prefix name = (if prefix \<noteq> [] then prefix @ ''.'' @ name else name)"

text \<open>
  \<^verbatim>\<open>flattenValue\<close> writes into a \<^verbatim>\<open>map[string]any\<close>. The model returns the writes in
  the order they happen; a later write to a key replaces an earlier one, so the map is
  \<open>map_of\<close> of the reversed list. An \<^verbatim>\<open>any\<close> is \<open>None\<close> for \<^verbatim>\<open>nil\<close> and
  \<open>Some v\<close> for a value. The flag \<open>ro\<close> says that the value was reached through a
  field that is not exported: \<^verbatim>\<open>v.Interface()\<close> panics on it, and the result is
  \<open>None\<close>. A nil pointer is stored as \<^verbatim>\<open>nil\<close> without that call.
\<close>

definition concatAll :: "'a list option list \<Rightarrow> 'a list option" where
  "concatAll xs = map_option concat (those xs)"

fun flattenValue :: "bool \<Rightarrow> string \<Rightarrow> gval \<Rightarrow> (string \<times> gval option) list option" where
  "flattenValue ro prefix (VPtr t None) = Some [(prefix, None)]"
| "flattenValue ro prefix (VPtr t (Some (VStruct fs))) =
     concatAll (map (\<lambda>f. if fieldTag (fst f) = ''-'' then Some []
                          else flattenValue (ro \<or> \<not> exported (fst f))
                                 (newKey prefix (exposedName (fst f))) (snd f)) fs)"
| "flattenValue ro prefix (VPtr t (Some v)) = (if ro then None else Some [(prefix, Some v)])"
| "flattenValue ro prefix (VStruct fs) =
     concatAll (map (\<lambda>f. if fieldTag (fst f) = ''-'' then Some []
                          else flattenValue (ro \<or> \<not> exported (fst f))
                                 (newKey prefix (exposedName (fst f))) (snd f)) fs)"
| "flattenValue ro prefix v = (if ro then None else Some [(prefix, Some v)])"

type_synonym rowMap = "(string \<times> gval option) list"

text \<open>\<^verbatim>\<open>row[k]\<close>: \<^verbatim>\<open>nil\<close> for a key the map does not have.\<close>

definition rowGet :: "rowMap \<Rightarrow> string \<Rightarrow> gval option" where
  "rowGet row k = (case map_of (rev row) k of Some v \<Rightarrow> v | None \<Rightarrow> None)"

subsection \<open>Serialization: \<^verbatim>\<open>serializeValue\<close>, \<^verbatim>\<open>formatInlinePair\<close>, \<^verbatim>\<open>encodeInline\<close>\<close>

fun serializeVal :: "gval \<Rightarrow> string"
  and formatInlinePair :: "string \<Rightarrow> gval \<Rightarrow> string"
where
  "serializeVal (VPtr t None) = ''~''"
| "serializeVal (VPtr t (Some v)) = serializeVal v"
| "serializeVal (VStr s) = ReplaceAll s (CHR '' '') ''_''"
| "serializeVal (VInt n) = showInt n"
| "serializeVal (VBool b) = (if b then ''true'' else ''false'')"
| "serializeVal (VStruct fs) =
     ''{'' @ Join (concat (map (\<lambda>f. if fieldTag (fst f) = ''-'' then []
                                     else [formatInlinePair (exposedName (fst f)) (snd f)]) fs)) '' ''
       @ ''}''"
| "formatInlinePair k (VStr s) = k @ ''='' @ ReplaceAll (serializeVal (VStr s)) (CHR '' '') ''_''"
| "formatInlinePair k (VBool b) = (if b then k @ '':y'' else k @ '':n'')"
| "formatInlinePair k v = k @ '':'' @ serializeVal v"

text \<open>\<^verbatim>\<open>serializeValue\<close> of \<^verbatim>\<open>reflect.ValueOf\<close> of an \<^verbatim>\<open>any\<close>.\<close>

definition serializeValue :: "gval option \<Rightarrow> string" where
  "serializeValue v = (case v of None \<Rightarrow> ''~'' | Some x \<Rightarrow> serializeVal x)"

definition encodeInline :: "(fdecl \<times> gval) list \<Rightarrow> string" where
  "encodeInline fs =
     Join (concat (map (\<lambda>f. if fieldTag (fst f) = ''-'' then []
                             else [formatInlinePair (exposedName (fst f)) (snd f)]) fs)) '' ''"

subsection \<open>What the Go runtime leaves open\<close>

text \<open>
  Three things the encoder's output depends on are not fixed by the program: the order in
  which \<^verbatim>\<open>range\<close> visits a map, the order \<^verbatim>\<open>sort.Slice\<close> leaves equal elements in,
  and the address \<^verbatim>\<open>%v\<close> prints for a pointer. The model takes them as a parameter:
  \<open>savingsOrder\<close> is the order of the slice \<^verbatim>\<open>savings\<close> after the sort, given its
  elements; \<open>aliasOrder name\<close> is the order in which \<^verbatim>\<open>applyAlias(name, aliases)\<close> visits
  the alias table; \<open>showPointer\<close> is the text of a pointer. \<open>validRuntime\<close> says what Go
  guarantees of the first two.
\<close>

record runtime =
  savingsOrder :: "(string \<times> int) list \<Rightarrow> (string \<times> int) list"
  aliasOrder :: "string \<Rightarrow> (string \<times> string) list \<Rightarrow> (string \<times> string) list"
  showPointer :: "gtype \<Rightarrow> gval option \<Rightarrow> string"

definition validRuntime :: "runtime \<Rightarrow> bool" where
  "validRuntime rt =
     ((\<forall>xs. set (savingsOrder rt xs) = set xs \<and> length (savingsOrder rt xs) = length xs \<and>
            sorted_wrt (\<lambda>a b. snd a \<ge> snd b) (savingsOrder rt xs)) \<and>
      (\<forall>name xs. set (aliasOrder rt name xs) = set xs \<and> length (aliasOrder rt name xs) = length xs))"

subsection \<open>Alias detection: \<^verbatim>\<open>detectAliases\<close>, \<^verbatim>\<open>applyAlias\<close>\<close>

definition properPrefixes :: "string \<Rightarrow> string list" where
  "properPrefixes k =
     (let parts = Split k (CHR ''.'')
      in map (\<lambda>i. Join (take i parts) ''.'') [1..<length parts])"

definition allPrefixes :: "string list \<Rightarrow> string list" where
  "allPrefixes keys = concat (map properPrefixes keys)"

text \<open>\<^verbatim>\<open>prefixCounts[prefix]\<close>.\<close>

definition prefixCount :: "string list \<Rightarrow> string \<Rightarrow> nat" where
  "prefixCount keys prefix = count_list (allPrefixes keys) prefix"

definition score :: "string \<Rightarrow> nat \<Rightarrow> int" where
  "score prefix count = (int (length prefix) - 2) * int count - (int (length prefix) + 4)"

text \<open>The elements of \<^verbatim>\<open>savings\<close>, each prefix once.\<close>

definition savingsOf :: "string list \<Rightarrow> (string \<times> int) list" where
  "savingsOf keys =
     filter (\<lambda>s. snd s > 0)
       (map (\<lambda>p. (p, score p (prefixCount keys p))) (remdups (allPrefixes keys)))"

text \<open>\<^verbatim>\<open>strings.ToLower(string(b))\<close> for a byte \<open>b\<close>: the conversion reads the byte as
  the code point U+0000 .. U+00FF and encodes it in UTF-8.\<close>

definition lowerLatin1 :: "nat \<Rightarrow> nat" where
  "lowerLatin1 r =
     (if 65 \<le> r \<and> r \<le> 90 then r + 32
      else if 192 \<le> r \<and> r \<le> 222 \<and> r \<noteq> 215 then r + 32
      else r)"

definition lowerOfByte :: "char \<Rightarrow> string" where
  "lowerOfByte b =
     (let r = lowerLatin1 (ord b)
      in if r < 128 then [char_of r] else [char_of (192 + r div 64), char_of (128 + r mod 64)])"

text \<open>\<^verbatim>\<open>pParts[len(pParts)-1][0]\<close> panics when the last segment is empty: \<open>None\<close>.\<close>

definition aliasCandidate :: "string \<Rightarrow> string option" where
  "aliasCandidate prefix =
     (case last (Split prefix (CHR ''.'')) of
        [] \<Rightarrow> None
      | c # cs \<Rightarrow> Some (lowerOfByte c))"

text \<open>The inner loop: the alias found (empty when none) and the new \<^verbatim>\<open>aliasIdx\<close>.\<close>

function pickAlias :: "string list \<Rightarrow> string \<Rightarrow> nat \<Rightarrow> string \<times> nat" where
  "pickAlias used candidate aliasIdx =
     (if candidate \<notin> set used then (candidate, aliasIdx)
      else if length candidate = 1 then
        (if aliasIdx + 1 > 25 then ([], aliasIdx + 1)
         else pickAlias used [char_of (97 + aliasIdx)] (aliasIdx + 1))
      else ([], aliasIdx))"
  by pat_completeness auto
termination
  by (relation "measure (\<lambda>(used, candidate, aliasIdx). 26 - aliasIdx)") auto

declare pickAlias.simps [simp del]

definition mapPut :: "('k \<times> 'v) list \<Rightarrow> 'k \<Rightarrow> 'v \<Rightarrow> ('k \<times> 'v) list" where
  "mapPut m k v = (if k \<in> set (map fst m) then map (\<lambda>e. if fst e = k then (k, v) else e) m else m @ [(k, v)])"

fun assignAliases ::
  "(string \<times> int) list \<Rightarrow> (string \<times> string) list \<Rightarrow> nat \<Rightarrow> (string \<times> string) list option" where
  "assignAliases [] aliases aliasIdx = Some aliases"
| "assignAliases (s # ss) aliases aliasIdx =
     (case aliasCandidate (fst s) of
        None \<Rightarrow> None
      | Some candidate \<Rightarrow>
          let r = pickAlias (map snd aliases) candidate aliasIdx;
              aliases' = (if fst r \<noteq> [] then mapPut aliases (fst s) (fst r) else aliases)
          in if length aliases' \<ge> 10 then Some aliases'
             else assignAliases ss aliases' (snd r))"

definition detectAliases :: "runtime \<Rightarrow> string list \<Rightarrow> (string \<times> string) list option" where
  "detectAliases rt keys = assignAliases (savingsOrder rt (savingsOf keys)) [] 0"

fun applyAliasLoop :: "string \<Rightarrow> (string \<times> string) list \<Rightarrow> string" where
  "applyAliasLoop name [] = name"
| "applyAliasLoop name (a # as) =
     (if HasPrefix name (fst a @ ''.'') then ''%'' @ snd a @ drop (length (fst a)) name
      else if name = fst a then ''%'' @ snd a
      else applyAliasLoop name as)"

definition applyAlias :: "runtime \<Rightarrow> string \<Rightarrow> (string \<times> string) list \<Rightarrow> string" where
  "applyAlias rt name aliases = applyAliasLoop name (aliasOrder rt name aliases)"

subsection \<open>Column statistics\<close>

datatype kind = Invalid | KBool | KInt | KString | KPtr | KStruct

fun kindOf :: "gval \<Rightarrow> kind" where
  "kindOf (VInt n) = KInt"
| "kindOf (VBool b) = KBool"
| "kindOf (VStr s) = KString"
| "kindOf (VPtr t p) = KPtr"
| "kindOf (VStruct fs) = KStruct"

definition canBeInt :: "kind \<Rightarrow> bool" where
  "canBeInt k = (k = KInt)"

definition isIntKind :: "kind \<Rightarrow> bool" where
  "isIntKind k = canBeInt k"

definition isBoolKind :: "kind \<Rightarrow> bool" where
  "isBoolKind k = (k = KBool)"

record columnStats =
  cs_name :: string
  cs_kind :: kind
  cs_values :: "string list"
  cs_uniqueVals :: "string list"
  cs_isSeq :: bool
  cs_indexed :: bool
  cs_enumKeys :: "string list"
  cs_isText :: bool

text \<open>One pass of the loop that detects the kind of a column: \<open>v\<close> is \<^verbatim>\<open>row[k]\<close>.\<close>

definition kindStep :: "string \<Rightarrow> kind \<times> bool \<Rightarrow> gval option \<Rightarrow> kind \<times> bool" where
  "kindStep k st v =
     (let kind' =
            (case v of
               None \<Rightarrow> fst st
             | Some (VPtr t None) \<Rightarrow> fst st
             | Some x \<Rightarrow>
                 if fst st = Invalid then kindOf x
                 else if fst st \<noteq> kindOf x then KString
                 else fst st)
      in (kind', snd st \<or> (k = ''id'' \<and> canBeInt kind')))"

text \<open>The statistics of a column after the two loops over the rows: its kind, whether it
  is a candidate sequence, the serialized value of every row and the distinct ones.\<close>

definition mkStats :: "rowMap list \<Rightarrow> string \<Rightarrow> columnStats" where
  "mkStats flattened k =
     (let ks = foldl (kindStep k) (Invalid, False) (map (\<lambda>row. rowGet row k) flattened);
          vals = map (\<lambda>row. serializeValue (rowGet row k)) flattened
      in \<lparr>cs_name = k, cs_kind = fst ks, cs_values = vals, cs_uniqueVals = remdups vals,
          cs_isSeq = snd ks, cs_indexed = False, cs_enumKeys = [], cs_isText = False\<rparr>)"

subsection \<open>The type of a column\<close>

text \<open>Whether the serialized values are \<open>1, 2, ...\<close>: \<open>idx\<close> is the index of the first
  value.\<close>

fun isSequence :: "nat \<Rightarrow> string list \<Rightarrow> bool" where
  "isSequence idx [] = True"
| "isSequence idx (v # vs) = (v = showInt (int idx + 1) \<and> isSequence (Suc idx) vs)"

text \<open>The type code of a column, the statistics with the flags the decision sets, and
  whether the column is skipped in the rows (\<^verbatim>\<open>i+\<close>).\<close>

definition decideType :: "nat \<Rightarrow> columnStats \<Rightarrow> string \<times> columnStats \<times> bool" where
  "decideType len st =
     (if cs_isSeq st then
        (if isSequence 0 (cs_values st) then (''i+'', st, True) else (''i'', st, False))
      else if isBoolKind (cs_kind st) then (''b'', st, False)
      else if isIntKind (cs_kind st) then (''i'', st, False)
      else if length (cs_uniqueVals st) \<le> 10 \<and> length (cs_uniqueVals st) < len then
        (let keys = sort (filter (\<lambda>k. k \<noteq> ''~'') (cs_uniqueVals st)) in
         if length keys \<ge> 3 then
           (let avgLen = sum_list (map length keys) div length keys;
                literalCost = avgLen * len;
                indexCost = length (Join keys ''|'') + len * 2
            in if literalCost > indexCost
               then (''!'' @ Join keys ''|'', st\<lparr>cs_indexed := True, cs_enumKeys := keys\<rparr>, False)
               else (''='' @ Join keys ''|'', st\<lparr>cs_enumKeys := keys\<rparr>, False))
         else if length keys > 0 then (''='' @ Join keys ''|'', st\<lparr>cs_enumKeys := keys\<rparr>, False)
         else (''s'', st, False))
      else
        (let totalLen = sum_list (map length (cs_values st)) in
         if length (cs_values st) > 0 \<and> totalLen div length (cs_values st) > 30
         then (''t'', st\<lparr>cs_isText := True\<rparr>, False)
         else (''s'', st, False)))"

definition colSpec :: "string \<Rightarrow> string \<Rightarrow> string" where
  "colSpec aliased typeCode =
     (if HasPrefix typeCode ''='' \<or> HasPrefix typeCode ''!'' then aliased @ typeCode
      else aliased @ '':'' @ typeCode)"

subsection \<open>Constants\<close>

text \<open>The comparison \<^verbatim>\<open>val != first\<close> followed by \<^verbatim>\<open>reflect.DeepEqual\<close> is structural
  equality of the two values.\<close>

definition isConstKey :: "rowMap list \<Rightarrow> string \<Rightarrow> bool" where
  "isConstKey flattened k =
     (list_all (\<lambda>row. rowGet row k = rowGet (hd flattened) k) flattened \<and>
      rowGet (hd flattened) k \<noteq> None)"

definition constSpec :: "runtime \<Rightarrow> (string \<times> string) list \<Rightarrow> rowMap list \<Rightarrow> string \<Rightarrow> string" where
  "constSpec rt aliases flattened k =
     (let v = rowGet (hd flattened) k;
          aliased = ReplaceAll (applyAlias rt k aliases) (CHR '' '') ''_''
      in ''@'' @ aliased @
         (case v of
            Some (VStr s) \<Rightarrow> ''='' @ serializeValue v
          | Some (VBool b) \<Rightarrow> '':'' @ (if b then ''y'' else ''n'')
          | _ \<Rightarrow> '':'' @ serializeValue v))"

subsection \<open>Rows\<close>

text \<open>\<^verbatim>\<open>fmt.Sprintf("%v", rawVal)\<close>.\<close>

fun showV :: "runtime \<Rightarrow> gval \<Rightarrow> string" where
  "showV rt (VInt n) = showInt n"
| "showV rt (VBool b) = (if b then ''true'' else ''false'')"
| "showV rt (VStr s) = s"
| "showV rt (VPtr t p) = showPointer rt t p"
| "showV rt (VStruct fs) = ''{'' @ Join (map (\<lambda>f. showV rt (snd f)) fs) '' '' @ ''}''"

definition showAny :: "runtime \<Rightarrow> gval option \<Rightarrow> string" where
  "showAny rt v = (case v of None \<Rightarrow> ''<nil>'' | Some x \<Rightarrow> showV rt x)"

text \<open>The position of a value in \<^verbatim>\<open>enumKeys\<close>, when it is there.\<close>

fun enumIndex :: "string list \<Rightarrow> string \<Rightarrow> nat option" where
  "enumIndex [] sVal = None"
| "enumIndex (e # es) sVal = (if sVal = e then Some 0 else map_option Suc (enumIndex es sVal))"

text \<open>The token of one column in one row.\<close>

definition cell :: "runtime \<Rightarrow> columnStats \<Rightarrow> gval option \<Rightarrow> string" where
  "cell rt st rawVal =
     (let sVal = serializeValue rawVal in
      if isBoolKind (cs_kind st) then
        (if sVal = ''true'' then ''1'' else if sVal = ''false'' then ''0'' else sVal)
      else if cs_indexed st \<and> length (cs_enumKeys st) > 0 then
        (case enumIndex (cs_enumKeys st) sVal of
           Some idx \<Rightarrow> showInt (int idx)
         | None \<Rightarrow> sVal)
      else if cs_isText st then
        [CHR 0x22] @
        ReplaceAll (case rawVal of Some (VStr s) \<Rightarrow> s | _ \<Rightarrow> showAny rt rawVal) (CHR 0x22) [CHR 0x5C, CHR 0x22] @
        [CHR 0x22]
      else sVal)"

text \<open>A column as the loops over \<^verbatim>\<open>activeKeys\<close> see it: its key, its type code, its
  statistics and whether its index is in \<^verbatim>\<open>skipIndices\<close>.\<close>

definition column :: "rowMap list \<Rightarrow> string \<Rightarrow> string \<times> string \<times> columnStats \<times> bool" where
  "column flattened k = (k, decideType (length flattened) (mkStats flattened k))"

definition rowLine :: "runtime \<Rightarrow> (string \<times> string \<times> columnStats \<times> bool) list \<Rightarrow> rowMap \<Rightarrow> string" where
  "rowLine rt cols row =
     Join (map (\<lambda>c. cell rt (fst (snd (snd c))) (rowGet row (fst c)))
             (filter (\<lambda>c. \<not> snd (snd (snd c))) cols)) '' ''"

subsection \<open>\<^verbatim>\<open>encodeTabular\<close>, \<^verbatim>\<open>encode\<close> and \<^verbatim>\<open>Marshal\<close>\<close>

definition aliasLine :: "(string \<times> string) list \<Rightarrow> string" where
  "aliasLine aliases = Join (sort (map (\<lambda>a. ''%'' @ snd a @ ''='' @ fst a) aliases)) '' ''"

text \<open>The keys of all rows in ascending order, and the two lists the loop over them
  builds: the keys hoisted as constants and \<^verbatim>\<open>activeKeys\<close>.\<close>

definition allKeysOf :: "rowMap list \<Rightarrow> string list" where
  "allKeysOf flattened = sort (remdups (concat (map (map fst) flattened)))"

definition constKeysOf :: "rowMap list \<Rightarrow> string list" where
  "constKeysOf flattened =
     (if length flattened > 1 then filter (isConstKey flattened) (allKeysOf flattened) else [])"

definition activeKeysOf :: "rowMap list \<Rightarrow> string list" where
  "activeKeysOf flattened =
     (if length flattened > 1 then filter (\<lambda>k. \<not> isConstKey flattened k) (allKeysOf flattened)
      else allKeysOf flattened)"

definition columnsOf :: "rowMap list \<Rightarrow> (string \<times> string \<times> columnStats \<times> bool) list" where
  "columnsOf flattened = map (column flattened) (activeKeysOf flattened)"

definition allSkipped :: "(string \<times> string \<times> columnStats \<times> bool) list \<Rightarrow> bool" where
  "allSkipped cols = list_all (\<lambda>c. snd (snd (snd c))) cols"

definition headerParts :: "runtime \<Rightarrow> (string \<times> string) list \<Rightarrow> rowMap list \<Rightarrow> string list" where
  "headerParts rt aliases flattened =
     [''#''] @ map (constSpec rt aliases flattened) (constKeysOf flattened) @
     map (\<lambda>c. colSpec (ReplaceAll (applyAlias rt (fst c) aliases) (CHR '' '') ''_'') (fst (snd c)))
       (columnsOf flattened) @
     (if allSkipped (columnsOf flattened) then [''+'' @ showInt (int (length flattened))] else [])"

text \<open>The output written and the error. A panic in \<^verbatim>\<open>flattenValue\<close> or in
  \<^verbatim>\<open>detectAliases\<close> happens before anything is written.\<close>

definition encodeTabular :: "runtime \<Rightarrow> gval list \<Rightarrow> string \<times> err option" where
  "encodeTabular rt slice =
     (if length slice = 0 then ([], None)
      else
        (case those (map (flattenValue False []) slice) of
           None \<Rightarrow> ([], Some Panic)
         | Some flattened \<Rightarrow>
             (case detectAliases rt (activeKeysOf flattened) of
                None \<Rightarrow> ([], Some Panic)
              | Some aliases \<Rightarrow>
                  let lines = (if length aliases > 0 then [aliasLine aliases] else []) @
                              [Join (headerParts rt aliases flattened) '' ''];
                      headerBlock = Join lines [CHR 0x0A]
                  in if allSkipped (columnsOf flattened) then (headerBlock @ [CHR 0x0A], None)
                     else (headerBlock @ [CHR 0x0A] @
                           concat (map (\<lambda>row. rowLine rt (columnsOf flattened) row @ [CHR 0x0A])
                                     flattened), None))))"

definition encode :: "runtime \<Rightarrow> top \<Rightarrow> string \<times> err option" where
  "encode rt v =
     (case v of
        Slice ty slice \<Rightarrow> encodeTabular rt slice
      | Single (VStruct fs) \<Rightarrow> (encodeInline fs, None)
      | Single (VPtr t (Some (VStruct fs))) \<Rightarrow> (encodeInline fs, None)
      | Single x \<Rightarrow> ([], Some ErrTopLevel))"

text \<open>\<^verbatim>\<open>Marshal\<close> returns the bytes written, or \<^verbatim>\<open>nil\<close> and the error.\<close>

definition Marshal :: "runtime \<Rightarrow> top \<Rightarrow> string \<times> err option" where
  "Marshal rt v = (case encode rt v of (out, None) \<Rightarrow> (out, None) | (out, Some e) \<Rightarrow> ([], Some e))"

section \<open>A runtime\<close>

text \<open>One runtime that Go allows, for the closed instances below: the sort is stable on
  the order \<open>savingsOf\<close> lists the prefixes in, and a map is visited in the order its keys
  were added.\<close>

definition stableRuntime :: runtime where
  "stableRuntime =
     \<lparr>savingsOrder = (\<lambda>xs. rev (sort_key snd xs)),
      aliasOrder = (\<lambda>name xs. xs),
      showPointer = (\<lambda>t p. ''0xc000010000'')\<rparr>"

lemma validRuntime_stableRuntime: "validRuntime stableRuntime"
proof -
  have "sorted_wrt (\<lambda>a b. snd a \<ge> snd b) (rev (sort_key snd xs))" for xs :: "(string \<times> int) list"
  proof -
    have "sorted (map snd (sort_key snd xs))" by (rule sorted_sort_key)
    then have "sorted_wrt (\<lambda>a b. snd a \<le> snd b) (sort_key snd xs)" by (simp add: sorted_map)
    then show ?thesis by (simp add: sorted_wrt_rev)
  qed
  then show ?thesis by (simp add: validRuntime_def stableRuntime_def)
qed

lemma validRuntime_savings_Nil: "validRuntime rt \<Longrightarrow> savingsOrder rt [] = []"
proof -
  assume "validRuntime rt"
  then have "length (savingsOrder rt []) = length ([] :: (string \<times> int) list)"
    unfolding validRuntime_def by blast
  then show ?thesis by simp
qed

lemma validRuntime_alias_Nil: "validRuntime rt \<Longrightarrow> aliasOrder rt name [] = []"
proof -
  assume "validRuntime rt"
  then have "length (aliasOrder rt name []) = length ([] :: (string \<times> string) list)"
    unfolding validRuntime_def by blast
  then show ?thesis by simp
qed

section \<open>Empty inputs\<close>

text \<open>
  Claim C9. Encoding a slice of length 0, of any element type, writes nothing and returns
  no error: \<^verbatim>\<open>Marshal\<close> returns the empty byte sequence and \<^verbatim>\<open>nil\<close>.
\<close>

theorem Marshal_empty_slice: "Marshal rt (Slice ty []) = ([], None)"
  by (simp add: Marshal_def encode_def encodeTabular_def)

text \<open>The encodings of the white-space runes.\<close>

definition whiteSpaceRunes :: "string list" where
  "whiteSpaceRunes = map (\<lambda>c. [c]) [CHR 0x09, CHR 0x0A, CHR 0x0B, CHR 0x0C, CHR 0x0D, CHR 0x20] @ unicodeSpaces"

lemma spaceLen_rune: "w \<in> set whiteSpaceRunes \<Longrightarrow> spaceLen (w @ s) = length w \<and> w \<noteq> []"
  unfolding whiteSpaceRunes_def unicodeSpaces_def
  by (auto simp: spaceLen_def asciiSpace_def HasPrefix_def unicodeSpaces_def)

lemma trimLeft_runes: "\<forall>w\<in>set ws. w \<in> set whiteSpaceRunes \<Longrightarrow> trimLeft (concat ws) = []"
proof (induction ws)
  case Nil
  show ?case by (subst trimLeft.simps) (simp add: spaceLen_def)
next
  case (Cons w ws)
  then have w: "spaceLen (w @ concat ws) = length w" "w \<noteq> []"
    using spaceLen_rune [of w "concat ws"] by simp_all
  have "trimLeft (concat (w # ws)) = trimLeft (concat ws)"
    by (subst trimLeft.simps) (simp add: w)
  then show ?case using Cons by simp
qed

lemma TrimSpace_runes: "\<forall>w\<in>set ws. w \<in> set whiteSpaceRunes \<Longrightarrow> TrimSpace (concat ws) = []"
proof -
  assume "\<forall>w\<in>set ws. w \<in> set whiteSpaceRunes"
  then have "trimLeft (concat ws) = []" by (rule trimLeft_runes)
  moreover have "trimLeftRev [] = []" by (subst trimLeftRev.simps) (simp add: spaceLenRev_def)
  ultimately show ?thesis by (simp add: TrimSpace_def)
qed

text \<open>
  Claim C10. Decoding an input that is empty or a sequence of white-space runes, into any
  non-nil pointer, returns no error and leaves the variable behind the pointer as it was.
\<close>

theorem decode_blank_input:
  "\<forall>w\<in>set ws. w \<in> set whiteSpaceRunes \<Longrightarrow>
     Unmarshal uf (concat ws) (PointerTo tgt) = (PointerTo tgt, None)"
  by (simp add: Unmarshal_def decode_def TrimSpace_runes)

theorem decode_blank_input_witness:
  "\<forall>uf. Unmarshal uf [] (PointerTo (Single (VInt 7))) = (PointerTo (Single (VInt 7)), None) \<and>
     Unmarshal uf ([CHR 0x20, CHR 0x0A, CHR 0x09] @ [CHR 0xC2, CHR 0xA0])
       (PointerTo (Slice TInt [VInt 1])) = (PointerTo (Slice TInt [VInt 1]), None)"
proof (intro allI)
  fix uf :: unicodeFold
  have a: "\<forall>w\<in>set ([] :: string list). w \<in> set whiteSpaceRunes" by simp
  have b: "\<forall>w\<in>set [[CHR 0x20], [CHR 0x0A], [CHR 0x09], [CHR 0xC2, CHR 0xA0]]. w \<in> set whiteSpaceRunes"
    by (simp add: whiteSpaceRunes_def unicodeSpaces_def)
  show "Unmarshal uf [] (PointerTo (Single (VInt 7))) = (PointerTo (Single (VInt 7)), None) \<and>
     Unmarshal uf ([CHR 0x20, CHR 0x0A, CHR 0x09] @ [CHR 0xC2, CHR 0xA0])
       (PointerTo (Slice TInt [VInt 1])) = (PointerTo (Slice TInt [VInt 1]), None)"
    using decode_blank_input [OF a, of uf "Single (VInt 7)"]
      decode_blank_input [OF b, of uf "Slice TInt [VInt 1]"]
    by simp
qed

section \<open>The steps of \<^verbatim>\<open>encodeTabular\<close>\<close>

lemma those_length: "those xs = Some ys \<Longrightarrow> length ys = length xs"
  by (induction xs arbitrary: ys) (auto split: option.splits)

lemma encodeTabular_steps:
  assumes "length slice > 0"
    and "those (map (flattenValue False []) slice) = Some flattened"
    and "allKeys = sort (remdups (concat (map (map fst) flattened)))"
    and "constKeys = (if length slice > 1 then filter (isConstKey flattened) allKeys else [])"
    and "activeKeys = (if length slice > 1 then filter (\<lambda>k. \<not> isConstKey flattened k) allKeys else allKeys)"
    and "detectAliases rt activeKeys = Some aliases"
    and "cols = map (column flattened) activeKeys"
    and "constParts = map (constSpec rt aliases flattened) constKeys"
    and "colParts = map (\<lambda>c. colSpec (ReplaceAll (applyAlias rt (fst c) aliases) (CHR '' '') ''_'') (fst (snd c))) cols"
    and "skipped = list_all (\<lambda>c. snd (snd (snd c))) cols"
    and "rowLines = map (rowLine rt cols) flattened"
  shows "encodeTabular rt slice =
     (Join ((if length aliases > 0 then [aliasLine aliases] else []) @
            [Join ([''#''] @ constParts @ colParts @
                   (if skipped then [''+'' @ showInt (int (length slice))] else [])) '' ''])
        [CHR 0x0A] @ [CHR 0x0A] @
      (if skipped then [] else concat (map (\<lambda>l. l @ [CHR 0x0A]) rowLines)), None)"
proof -
  have len: "length flattened = length slice" using those_length [OF assms(2)] by simp
  have ak: "activeKeysOf flattened = activeKeys"
    by (simp add: activeKeysOf_def allKeysOf_def assms(3) assms(5) len)
  have ck: "constKeysOf flattened = constKeys"
    by (simp add: constKeysOf_def allKeysOf_def assms(3) assms(4) len)
  have co: "columnsOf flattened = cols" by (simp add: columnsOf_def ak assms(7))
  have sk: "allSkipped cols = skipped" by (simp add: allSkipped_def assms(10))
  have hp: "headerParts rt aliases flattened =
      [''#''] @ constParts @ colParts @ (if skipped then [''+'' @ showInt (int (length slice))] else [])"
    by (simp add: headerParts_def ck co sk assms(8) assms(9) len)
  have m: "concat (map (\<lambda>row. rowLine rt cols row @ [CHR 0x0A]) flattened) =
        concat (map (\<lambda>l. l @ [CHR 0x0A]) rowLines)"
    by (simp add: assms(11) comp_def)
  show ?thesis
    unfolding encodeTabular_def Let_def assms(2) ak assms(6) option.case hp co sk m
    using assms(1) by simp
qed

section \<open>The canonical example\<close>

definition userDecls :: "fdecl list" where
  "userDecls = [Field ''ID'' ''id'' [] True, Field ''Name'' ''name'' [] True,
                Field ''Role'' ''role'' [] True, Field ''Active'' ''active'' [] True]"

definition userT :: gtype where
  "userT = TStruct (zip userDecls [TInt, TString, TString, TBool])"

definition user :: "int \<Rightarrow> string \<Rightarrow> string \<Rightarrow> bool \<Rightarrow> gval" where
  "user i n r a = VStruct (zip userDecls [VInt i, VStr n, VStr r, VBool a])"

definition users :: "gval list" where
  "users = [user 1 ''Alice'' ''Admin'' True, user 2 ''Bob'' ''User'' True,
            user 3 ''Carol'' ''User'' False]"



definition usersFlat :: "rowMap list" where
  "usersFlat =
     [[(''id'', Some (VInt 1)), (''name'', Some (VStr ''Alice'')), (''role'', Some (VStr ''Admin'')), (''active'', Some (VBool True))],
      [(''id'', Some (VInt 2)), (''name'', Some (VStr ''Bob'')), (''role'', Some (VStr ''User'')), (''active'', Some (VBool True))],
      [(''id'', Some (VInt 3)), (''name'', Some (VStr ''Carol'')), (''role'', Some (VStr ''User'')), (''active'', Some (VBool False))]]"

lemma users_flattened: "those (map (flattenValue False []) users) = Some usersFlat"
  by (simp add: users_def user_def userDecls_def fieldTag_def exposedName_def newKey_def usersFlat_def
      concatAll_def)

lemma users_allKeys:
  "sort (remdups (concat (map (map fst) usersFlat))) = [''active'', ''id'', ''name'', ''role'']"
  by (simp add: usersFlat_def)

lemma users_active:
  "filter (\<lambda>k. \<not> isConstKey usersFlat k) [''active'', ''id'', ''name'', ''role''] = [''active'', ''id'', ''name'', ''role'']"
  "filter (isConstKey usersFlat) [''active'', ''id'', ''name'', ''role''] = []"
  by (simp_all add: isConstKey_def usersFlat_def rowGet_def)

lemma showInt_small: "showInt 1 = ''1''" "showInt 2 = ''2''" "showInt 3 = ''3''"
  by (simp_all add: showInt_def showNat.simps digitChar_def char_of_eq_iff)

lemma users_savings: "savingsOf [''active'', ''id'', ''name'', ''role''] = []"
  by (simp add: savingsOf_def allPrefixes_def properPrefixes_def)

lemma users_col_active:
  "decideType 3 (mkStats usersFlat ''active'') =
     (''b'', \<lparr>cs_name = ''active'', cs_kind = KBool, cs_values = [''true'', ''true'', ''false''],
             cs_uniqueVals = [''true'', ''false''], cs_isSeq = False, cs_indexed = False,
             cs_enumKeys = [], cs_isText = False\<rparr>, False)"
  by (simp add: decideType_def mkStats_def usersFlat_def rowGet_def kindStep_def serializeValue_def
      canBeInt_def isBoolKind_def isIntKind_def Let_def)

lemma users_col_id:
  "decideType 3 (mkStats usersFlat ''id'') =
     (''i+'', \<lparr>cs_name = ''id'', cs_kind = KInt, cs_values = [''1'', ''2'', ''3''],
             cs_uniqueVals = [''1'', ''2'', ''3''], cs_isSeq = True, cs_indexed = False,
             cs_enumKeys = [], cs_isText = False\<rparr>, True)"
  by (simp add: decideType_def mkStats_def usersFlat_def rowGet_def kindStep_def serializeValue_def
      canBeInt_def isBoolKind_def isIntKind_def Let_def showInt_small)

lemma users_col_name:
  "decideType 3 (mkStats usersFlat ''name'') =
     (''s'', \<lparr>cs_name = ''name'', cs_kind = KString, cs_values = [''Alice'', ''Bob'', ''Carol''],
             cs_uniqueVals = [''Alice'', ''Bob'', ''Carol''], cs_isSeq = False, cs_indexed = False,
             cs_enumKeys = [], cs_isText = False\<rparr>, False)"
  by (simp add: decideType_def mkStats_def usersFlat_def rowGet_def kindStep_def serializeValue_def
      canBeInt_def isBoolKind_def isIntKind_def Let_def ReplaceAll_def)

lemma users_col_role:
  "decideType 3 (mkStats usersFlat ''role'') =
     (''=Admin|User'', \<lparr>cs_name = ''role'', cs_kind = KString, cs_values = [''Admin'', ''User'', ''User''],
             cs_uniqueVals = [''Admin'', ''User''], cs_isSeq = False, cs_indexed = False,
             cs_enumKeys = [''Admin'', ''User''], cs_isText = False\<rparr>, False)"
  by (simp add: decideType_def mkStats_def usersFlat_def rowGet_def kindStep_def serializeValue_def
      canBeInt_def isBoolKind_def isIntKind_def Let_def ReplaceAll_def)


lemma users_length: "length users = 3" "length usersFlat = 3"
  by (simp_all add: users_def usersFlat_def)

lemma users_cols:
  "map (column usersFlat) [''active'', ''id'', ''name'', ''role''] =
     [(''active'', decideType 3 (mkStats usersFlat ''active'')),
      (''id'', decideType 3 (mkStats usersFlat ''id'')),
      (''name'', decideType 3 (mkStats usersFlat ''name'')),
      (''role'', decideType 3 (mkStats usersFlat ''role''))]"
  by (simp add: column_def users_length)

lemma users_rows:
  "map (\<lambda>row. rowLine rt (map (column usersFlat) [''active'', ''id'', ''name'', ''role'']) row) usersFlat =
     [''1 Alice Admin'', ''1 Bob User'', ''0 Carol User'']"
  unfolding users_cols users_col_active users_col_id users_col_name users_col_role
  by (simp add: rowLine_def cell_def usersFlat_def rowGet_def serializeValue_def isBoolKind_def
      ReplaceAll_def)

lemma applyAlias_Nil: "validRuntime rt \<Longrightarrow> applyAlias rt name [] = name"
  by (simp add: applyAlias_def validRuntime_alias_Nil)

lemma detectAliases_no_savings:
  "validRuntime rt \<Longrightarrow> savingsOf keys = [] \<Longrightarrow> detectAliases rt keys = Some []"
  by (simp add: detectAliases_def validRuntime_savings_Nil)


text \<open>
  Claim C2. The three users of the canonical example, with the fields exposed under the
  names \<^verbatim>\<open>id\<close>, \<^verbatim>\<open>name\<close>, \<^verbatim>\<open>role\<close> and \<^verbatim>\<open>active\<close>, encode to the header line
  \<^verbatim>\<open># active:b id:i+ name:s role=Admin|User\<close> and the three data lines \<^verbatim>\<open>1 Alice Admin\<close>,
  \<^verbatim>\<open>1 Bob User\<close> and \<^verbatim>\<open>0 Carol User\<close>, each line ended by a newline, whatever the runtime
  chooses.
\<close>

theorem Marshal_users:
  "validRuntime rt \<Longrightarrow>
   Marshal rt (Slice userT users) =
     (''# active:b id:i+ name:s role=Admin|User\<newline>1 Alice Admin\<newline>1 Bob User\<newline>0 Carol User\<newline>'', None)"
proof -
  assume v: "validRuntime rt"
  have d: "detectAliases rt [''active'', ''id'', ''name'', ''role''] = Some []"
    using v users_savings by (rule detectAliases_no_savings)
  have hdr: "[''active:b'', ''id:i+'', ''name:s'', ''role=Admin|User''] =
      map (\<lambda>c. colSpec (ReplaceAll (applyAlias rt (fst c) []) (CHR '' '') ''_'') (fst (snd c)))
               (map (column usersFlat) [''active'', ''id'', ''name'', ''role''])"
    unfolding users_cols users_col_active users_col_id users_col_name users_col_role
    by (simp add: applyAlias_Nil [OF v] colSpec_def HasPrefix_def ReplaceAll_def)
  have skip: "False = list_all (\<lambda>c. snd (snd (snd c))) (map (column usersFlat) [''active'', ''id'', ''name'', ''role''])"
    unfolding users_cols users_col_active users_col_id users_col_name users_col_role by simp
  have "encodeTabular rt users =
     (Join ((if length ([] :: (string \<times> string) list) > 0 then [aliasLine []] else []) @
            [Join ([''#''] @ [] @ [''active:b'', ''id:i+'', ''name:s'', ''role=Admin|User''] @
                   (if False then [''+'' @ showInt (int (length users))] else [])) '' ''])
        [CHR 0x0A] @ [CHR 0x0A] @
      (if False then [] else concat (map (\<lambda>l. l @ [CHR 0x0A]) [''1 Alice Admin'', ''1 Bob User'', ''0 Carol User''])), None)"
  proof (rule encodeTabular_steps [where flattened = usersFlat
        and allKeys = "[''active'', ''id'', ''name'', ''role'']"
        and activeKeys = "[''active'', ''id'', ''name'', ''role'']" and constKeys = "[]"
        and cols = "map (column usersFlat) [''active'', ''id'', ''name'', ''role'']"])
    show "0 < length users" by (simp add: users_length)
    show "those (map (flattenValue False []) users) = Some usersFlat" by (rule users_flattened)
    show "[''active'', ''id'', ''name'', ''role''] = sort (remdups (concat (map (map fst) usersFlat)))"
      by (simp add: users_allKeys)
    show "[] = (if 1 < length users then filter (isConstKey usersFlat) [''active'', ''id'', ''name'', ''role''] else [])"
      unfolding users_length users_active by simp
    show "[''active'', ''id'', ''name'', ''role''] =
        (if 1 < length users then filter (\<lambda>k. \<not> isConstKey usersFlat k) [''active'', ''id'', ''name'', ''role'']
         else [''active'', ''id'', ''name'', ''role''])"
      unfolding users_length users_active by simp
    show "detectAliases rt [''active'', ''id'', ''name'', ''role''] = Some []" by (rule d)
    show "map (column usersFlat) [''active'', ''id'', ''name'', ''role''] =
        map (column usersFlat) [''active'', ''id'', ''name'', ''role'']" by (rule refl)
    show "[] = map (constSpec rt [] usersFlat) []" by simp
    show "[''active:b'', ''id:i+'', ''name:s'', ''role=Admin|User''] =
      map (\<lambda>c. colSpec (ReplaceAll (applyAlias rt (fst c) []) (CHR '' '') ''_'') (fst (snd c)))
               (map (column usersFlat) [''active'', ''id'', ''name'', ''role''])" by (rule hdr)
    show "False = list_all (\<lambda>c. snd (snd (snd c))) (map (column usersFlat) [''active'', ''id'', ''name'', ''role''])"
      by (rule skip)
    show "[''1 Alice Admin'', ''1 Bob User'', ''0 Carol User''] =
        map (rowLine rt (map (column usersFlat) [''active'', ''id'', ''name'', ''role''])) usersFlat"
      using users_rows [of rt] by simp
  qed
  then show ?thesis by (simp add: Marshal_def encode_def)
qed

theorem Marshal_users_witness:
  "validRuntime stableRuntime \<and>
   Marshal stableRuntime (Slice userT users) =
     (''# active:b id:i+ name:s role=Admin|User\<newline>1 Alice Admin\<newline>1 Bob User\<newline>0 Carol User\<newline>'', None)"
  using Marshal_users [OF validRuntime_stableRuntime] validRuntime_stableRuntime by simp

section \<open>Field lookup\<close>



lemma findField_None_iff:
  "findField uf fs name = None \<longleftrightarrow> (\<forall>f\<in>set fs. \<not> fieldMatches uf (fst f) name)"
  by (induction fs) auto

lemma Split_not_Nil [simp]: "Split s sep \<noteq> []"
  by (induction s) (auto split: list.splits)

text \<open>
  A path misses when one of its segments matches no field of the record that the
  segments before it lead to. \<open>missWalk uf ro v parts\<close> follows the segments from \<open>v\<close>
  as far as they match: it is \<open>None\<close> when every segment matches a field, when the way
  leads through something that is no record, and when it leads through a nil pointer
  that is read-only; otherwise the path misses, and the result is \<open>v\<close> with the nil
  pointers that were passed on the way pointing to zero values.
\<close>

fun missWalk :: "unicodeFold \<Rightarrow> bool \<Rightarrow> gval \<Rightarrow> string list \<Rightarrow> gval option" where
  "missWalk uf ro v [] = None"
| "missWalk uf ro v [part] =
     (if derefPanics ro v \<or> derefPanics ro (derefVal v) then None
      else
        (case derefVal (derefVal v) of
           VStruct fs \<Rightarrow>
             if findField uf fs part = None
             then Some (rewrap v (rewrap (derefVal v) (VStruct fs)))
             else None
         | _ \<Rightarrow> None))"
| "missWalk uf ro v (part # q # rest) =
     (if derefPanics ro v then None
      else
        (case derefVal v of
           VStruct fs \<Rightarrow>
             (case findField uf fs part of
                None \<Rightarrow> Some (rewrap v (VStruct fs))
              | Some i \<Rightarrow>
                  map_option (\<lambda>x. rewrap v (VStruct (fs[i := (fst (fs ! i), x)])))
                    (missWalk uf (ro \<or> \<not> exported (fst (fs ! i))) (snd (fs ! i)) (q # rest)))
         | _ \<Rightarrow> None))"










text \<open>A record with a field that holds a pointer to a record.\<close>

definition hostT :: gtype where
  "hostT = TStruct [(Field ''Host'' ''host'' [] True, TString)]"

definition config :: "bool \<Rightarrow> gval option \<Rightarrow> gval" where
  "config ex srv =
     VStruct [(Field ''Name'' ''name'' [] True, VStr ''n''),
              (Field ''Server'' ''server'' [] ex, VPtr hostT srv)]"



text \<open>
  A path that misses after a nil pointer behind a field that is not exported does not
  get as far as the miss: \<^verbatim>\<open>deref\<close> panics on the pointer. So does the assignment to
  a field that is not exported.
\<close>

lemma setDeepField_unexported_panics:
  "\<forall>uf. missWalk uf False (config False None) (Split ''server.zzz'' (CHR ''.'')) = None \<and>
     setDeepField uf (config False None) ''server.zzz'' ''auto'' ''1'' =
       (config False None, Some Panic) \<and>
     setDeepField uf (VStruct [(Field ''name'' [] [] False, VInt 0)]) ''name'' ''i'' ''1'' =
       (VStruct [(Field ''name'' [] [] False, VInt 0)], Some Panic)"
  by (intro allI) code_simp

section \<open>Null values\<close>

definition mailRow :: "string option \<Rightarrow> gval" where
  "mailRow e = VStruct [(Field ''Email'' ''email'' [] True, VPtr TString (map_option VStr e))]"

text \<open>
  Claim C6, where the code misses it. A nil pointer is serialized as \<^verbatim>\<open>~\<close>
  (\<open>serializeVal\<close>), but in a column the encoder types as free text (\<^verbatim>\<open>t\<close>, average
  length above 30) the row loop replaces that token by the quoted \<^verbatim>\<open>%v\<close> rendering of
  the raw value, which for \<^verbatim>\<open>nil\<close> is \<^verbatim>\<open><nil>\<close>. Two rows with an optional
  \<^verbatim>\<open>email\<close>, the first 61 bytes long and the second absent:
\<close>

theorem Marshal_nil_in_text_column:
  "Marshal stableRuntime (Slice (TStruct [(Field ''Email'' ''email'' [] True, TPtr TString)])
       [mailRow (Some (replicate 61 (CHR ''a''))), mailRow None]) =
     (''# email:t'' @ [CHR 0x0A, CHR 0x22] @ replicate 61 (CHR ''a'') @ [CHR 0x22, CHR 0x0A, CHR 0x22] @
      ''<nil>'' @ [CHR 0x22, CHR 0x0A], None)"
  by code_simp

text \<open>The same rows with a short first value: the absent one is written \<^verbatim>\<open>~\<close>.\<close>

lemma Marshal_nil_in_string_column:
  "Marshal stableRuntime (Slice (TStruct [(Field ''Email'' ''email'' [] True, TPtr TString)])
       [mailRow (Some ''a@b.c''), mailRow None]) =
     (''# email:s\<newline>a@b.c\<newline>~\<newline>'', None)"
  by code_simp

section \<open>The layout of the tabular output\<close>












text \<open>The two panics of the tabular encoder: nothing is written.\<close>

lemma encodeTabular_flatten_panic:
  "slice \<noteq> [] \<Longrightarrow> those (map (flattenValue False []) slice) = None \<Longrightarrow>
     encodeTabular rt slice = ([], Some Panic)"
  by (simp add: encodeTabular_def)

lemma encodeTabular_alias_panic:
  "slice \<noteq> [] \<Longrightarrow> those (map (flattenValue False []) slice) = Some flattened \<Longrightarrow>
     detectAliases rt (activeKeysOf flattened) = None \<Longrightarrow>
     encodeTabular rt slice = ([], Some Panic)"
  by (simp add: encodeTabular_def)





definition metric :: "int \<Rightarrow> string \<Rightarrow> gval" where
  "metric i s = VStruct [(Field ''ID'' ''id'' [] True, VInt i), (Field ''Status'' ''status'' [] True, VStr s)]"

definition metricT :: gtype where
  "metricT = TStruct [(Field ''ID'' ''id'' [] True, TInt), (Field ''Status'' ''status'' [] True, TString)]"



text \<open>A slice of records with a field that is not exported cannot be encoded.\<close>

lemma Marshal_unexported_panics:
  "Marshal rt (Slice (TStruct [(Field ''id'' [] [] False, TInt)])
     [VStruct [(Field ''id'' [] [] False, VInt 1)]]) = ([], Some Panic)"
  by (simp add: Marshal_def encode_def encodeTabular_def concatAll_def fieldTag_def)

section \<open>What \<^verbatim>\<open>Atoi\<close> returns\<close>

text \<open>
  The value of a string of decimal digits, and the words of the claim about a token: its
  body is the token without one leading sign; the token is a decimal number when its body
  is a non-empty string of digits, and its value is then the value of the body, negated
  after a minus sign; its leading digits overflow when the digits the body starts with
  are already a number above \<open>2^64 - 1\<close>.
\<close>

definition decVal :: "string \<Rightarrow> nat" where
  "decVal cs = foldl (\<lambda>n c. n * 10 + digitVal c) 0 cs"

definition signedBody :: "string \<Rightarrow> string" where
  "signedBody s = (if HasPrefix s ''+'' \<or> HasPrefix s ''-'' then drop 1 s else s)"

definition isDecimal :: "string \<Rightarrow> bool" where
  "isDecimal s = (signedBody s \<noteq> [] \<and> list_all isDigit (signedBody s))"

definition decimalValue :: "string \<Rightarrow> int" where
  "decimalValue s =
     (if HasPrefix s ''-'' then - int (decVal (signedBody s)) else int (decVal (signedBody s)))"

definition leadingOverflow :: "string \<Rightarrow> bool" where
  "leadingOverflow s = (decVal (takeWhile isDigit (signedBody s)) > maxUint64)"

definition nearestBound :: "string \<Rightarrow> int" where
  "nearestBound s = (if HasPrefix s ''-'' then minInt64 else maxInt64)"

definition inInt64 :: "int \<Rightarrow> bool" where
  "inInt64 v = (minInt64 \<le> v \<and> v \<le> maxInt64)"

lemma foldl_dec_ge: "n \<le> foldl (\<lambda>n c. n * 10 + digitVal c) n cs"
proof (induction cs arbitrary: n)
  case Nil
  show ?case by simp
next
  case (Cons c cs)
  have "n \<le> n * 10 + digitVal c" by simp
  also have "\<dots> \<le> foldl (\<lambda>n c. n * 10 + digitVal c) (n * 10 + digitVal c) cs" by (rule Cons.IH)
  finally show ?case by simp
qed

lemma cutoff_overflow: "n \<ge> maxUint64 div 10 + 1 \<Longrightarrow> n * 10 + d > maxUint64"
  by (simp add: maxUint64_def)

lemma parseUintLoop_digits:
  "list_all isDigit cs \<Longrightarrow> n \<le> maxUint64 \<Longrightarrow>
     parseUintLoop n cs =
       (if foldl (\<lambda>n c. n * 10 + digitVal c) n cs > maxUint64 then (maxUint64, Some ErrRange)
        else (foldl (\<lambda>n c. n * 10 + digitVal c) n cs, None))"
proof (induction cs arbitrary: n)
  case Nil
  then show ?case by simp
next
  case (Cons c cs)
  have d: "isDigit c" and r: "list_all isDigit cs" using Cons.prems by simp_all
  define m where "m = n * 10 + digitVal c"
  have ge: "m \<le> foldl (\<lambda>n c. n * 10 + digitVal c) m cs" by (rule foldl_dec_ge)
  show ?case
  proof (cases "n \<ge> maxUint64 div 10 + 1 \<or> m > maxUint64")
    case True
    then have "m > maxUint64" using cutoff_overflow [of n "digitVal c"] by (auto simp: m_def)
    then have "foldl (\<lambda>n c. n * 10 + digitVal c) m cs > maxUint64" using ge by simp
    then show ?thesis using True d by (auto simp: m_def)
  next
    case False
    then have "m \<le> maxUint64" by simp
    then show ?thesis using False d Cons.IH [OF r, of m] by (simp add: m_def)
  qed
qed

lemma parseUintLoop_stop:
  "list_all isDigit p \<Longrightarrow> \<not> isDigit c \<Longrightarrow> n \<le> maxUint64 \<Longrightarrow>
     parseUintLoop n (p @ c # rest) =
       (if foldl (\<lambda>n c. n * 10 + digitVal c) n p > maxUint64 then (maxUint64, Some ErrRange)
        else (0, Some ErrSyntax))"
proof (induction p arbitrary: n)
  case Nil
  then show ?case by simp
next
  case (Cons a p)
  have d: "isDigit a" and r: "list_all isDigit p" using Cons.prems by simp_all
  define m where "m = n * 10 + digitVal a"
  have ge: "m \<le> foldl (\<lambda>n c. n * 10 + digitVal c) m p" by (rule foldl_dec_ge)
  show ?case
  proof (cases "n \<ge> maxUint64 div 10 + 1 \<or> m > maxUint64")
    case True
    then have "m > maxUint64" using cutoff_overflow [of n "digitVal a"] by (auto simp: m_def)
    then have "foldl (\<lambda>n c. n * 10 + digitVal c) m p > maxUint64" using ge by simp
    then show ?thesis using True d by (auto simp: m_def)
  next
    case False
    then have "m \<le> maxUint64" by simp
    then show ?thesis using False d Cons.IH [OF r Cons.prems(2), of m] by (simp add: m_def)
  qed
qed


lemma ParseUint_decimal:
  "body \<noteq> [] \<Longrightarrow> list_all isDigit body \<Longrightarrow>
     ParseUint body =
       (if decVal body > maxUint64 then (maxUint64, Some ErrRange) else (decVal body, None))"
  by (simp add: ParseUint_def parseUintLoop_digits decVal_def maxUint64_def)

lemma takeWhile_split:
  "\<not> list_all P xs \<Longrightarrow> \<exists>c rest. xs = takeWhile P xs @ c # rest \<and> \<not> P c"
proof -
  assume "\<not> list_all P xs"
  then have "dropWhile P xs \<noteq> []" by (simp add: list_all_iff dropWhile_eq_Nil_conv)
  then obtain c rest where d: "dropWhile P xs = c # rest" by (cases "dropWhile P xs") auto
  then have "\<not> P c" by (metis hd_dropWhile list.sel(1) list.distinct(1))
  moreover have "xs = takeWhile P xs @ c # rest" using d by (metis takeWhile_dropWhile_id)
  ultimately show ?thesis by blast
qed

lemma ParseUint_not_decimal:
  "\<not> (body \<noteq> [] \<and> list_all isDigit body) \<Longrightarrow>
     ParseUint body =
       (if decVal (takeWhile isDigit body) > maxUint64 then (maxUint64, Some ErrRange)
        else (0, Some ErrSyntax))"
proof (cases "body = []")
  case True
  then show ?thesis by (simp add: ParseUint_def decVal_def maxUint64_def)
next
  case False
  assume "\<not> (body \<noteq> [] \<and> list_all isDigit body)"
  then have "\<not> list_all isDigit body" using False by simp
  then obtain c rest where b: "body = takeWhile isDigit body @ c # rest" and c: "\<not> isDigit c"
    using takeWhile_split by blast
  have p: "list_all isDigit (takeWhile isDigit body)"
    by (simp add: list_all_iff) (meson set_takeWhileD)
  have "parseUintLoop 0 (takeWhile isDigit body @ c # rest) =
       (if foldl (\<lambda>n c. n * 10 + digitVal c) 0 (takeWhile isDigit body) > maxUint64
        then (maxUint64, Some ErrRange) else (0, Some ErrSyntax))"
    using p c by (rule parseUintLoop_stop) simp
  then show ?thesis using False b by (simp add: ParseUint_def decVal_def)
qed

lemma ParseInt_body:
  "ParseInt s =
     (if s = [] then (0, Some ErrSyntax)
      else
        (case ParseUint (signedBody s) of
           (un, Some ErrSyntax) \<Rightarrow> (0, Some ErrSyntax)
         | (un, _) \<Rightarrow>
             if \<not> HasPrefix s ''-'' \<and> un \<ge> 9223372036854775808 then (maxInt64, Some ErrRange)
             else if HasPrefix s ''-'' \<and> un > 9223372036854775808 then (minInt64, Some ErrRange)
             else (if HasPrefix s ''-'' then - int un else int un, None)))"
proof (cases s)
  case Nil
  then show ?thesis by (simp add: ParseInt_def)
next
  case (Cons c cs)
  have b: "signedBody s = (if c = CHR ''+'' \<or> c = CHR ''-'' then cs else s)"
    by (simp add: signedBody_def HasPrefix_def Cons)
  have n: "HasPrefix s ''-'' = (c = CHR ''-'')" by (simp add: HasPrefix_def Cons)
  show ?thesis unfolding b n unfolding ParseInt_def Cons by (simp only: list.case Let_def list.distinct if_False)
qed

text \<open>What \<^verbatim>\<open>Atoi\<close> returns, for every token.\<close>

lemma Atoi_spec:
  "Atoi s =
     (if isDecimal s then
        (if inInt64 (decimalValue s) then (decimalValue s, None)
         else (nearestBound s, Some ErrRange))
      else if leadingOverflow s then (nearestBound s, Some ErrRange)
      else (0, Some ErrSyntax))"
proof (cases "s = []")
  case True
  then show ?thesis
    by (simp add: Atoi_def ParseInt_def isDecimal_def signedBody_def leadingOverflow_def decVal_def
        maxUint64_def)
next
  case False
  define body where "body = signedBody s"
  define neg where "neg = HasPrefix s ''-''"
  have eq: "Atoi s =
        (case ParseUint body of
           (un, Some ErrSyntax) \<Rightarrow> (0, Some ErrSyntax)
         | (un, _) \<Rightarrow>
             if \<not> neg \<and> un \<ge> 9223372036854775808 then (maxInt64, Some ErrRange)
             else if neg \<and> un > 9223372036854775808 then (minInt64, Some ErrRange)
             else (if neg then - int un else int un, None))"
    unfolding Atoi_def body_def neg_def using False by (subst ParseInt_body) simp
  show ?thesis
  proof (cases "isDecimal s")
    case True
    then have b: "body \<noteq> []" "list_all isDigit body" by (simp_all add: isDecimal_def body_def)
    note pu = ParseUint_decimal [OF b]
    have dv: "decimalValue s = (if neg then - int (decVal body) else int (decVal body))"
      by (simp add: decimalValue_def neg_def body_def)
    show ?thesis
    proof (cases "decVal body > maxUint64")
      case over: True
      then have "\<not> inInt64 (decimalValue s)"
        by (simp add: dv inInt64_def maxUint64_def maxInt64_def minInt64_def)
      then show ?thesis using True over
        unfolding eq pu by (simp add: nearestBound_def neg_def [symmetric] maxUint64_def)
    next
      case fits: False
      show ?thesis using True fits
        unfolding eq pu
        by (auto simp: nearestBound_def neg_def [symmetric] dv inInt64_def maxInt64_def minInt64_def)
    qed
  next
    case False
    then have nb: "\<not> (body \<noteq> [] \<and> list_all isDigit body)" by (simp add: isDecimal_def body_def)
    note pu = ParseUint_not_decimal [OF nb]
    have lo: "leadingOverflow s = (decVal (takeWhile isDigit body) > maxUint64)"
      by (simp add: leadingOverflow_def body_def)
    show ?thesis using False
      unfolding eq pu lo
      by (auto simp: nearestBound_def neg_def [symmetric] maxUint64_def)
  qed
qed










section \<open>The cases of \<^verbatim>\<open>parsePrimitive\<close>\<close>

text \<open>
  Claim C3, as the code has it. The token \<^verbatim>\<open>~\<close> yields \<^verbatim>\<open>nil\<close> whatever the type
  hint. With hint \<^verbatim>\<open>i\<close> or \<^verbatim>\<open>i+\<close> the result is the integer \<^verbatim>\<open>Atoi\<close> returns and
  the error is dropped: for a decimal number (one optional sign, then one or more
  digits) its value when that is in the 64-bit signed range, and else the nearest bound
  of the range; for a token that is no decimal number 0, unless the digits its body
  starts with already overflow 64 bits, when it is the bound again. With hint \<^verbatim>\<open>b\<close> the
  result is true exactly for the tokens \<^verbatim>\<open>1\<close>, \<^verbatim>\<open>y\<close> and \<^verbatim>\<open>true\<close>. With any other
  hint, \<^verbatim>\<open>y\<close> and \<^verbatim>\<open>n\<close> are booleans, else a decimal number in the 64-bit signed
  range is that integer, else \<^verbatim>\<open>true\<close> and \<^verbatim>\<open>false\<close> are booleans, else the token is a
  string with every underscore replaced by a space.
\<close>

theorem parsePrimitive_cases:
  "parsePrimitive ''~'' typ = PNil \<and>
   (s \<noteq> ''~'' \<longrightarrow>
      ((typ = ''i'' \<or> typ = ''i+'') \<longrightarrow>
          parsePrimitive s typ =
            PInt (if isDecimal s
                  then (if inInt64 (decimalValue s) then decimalValue s else nearestBound s)
                  else if leadingOverflow s then nearestBound s
                  else 0)) \<and>
      (typ = ''b'' \<longrightarrow>
          parsePrimitive s typ = PBool (s = ''1'' \<or> s = ''y'' \<or> s = ''true'')) \<and>
      (typ \<noteq> ''i'' \<and> typ \<noteq> ''i+'' \<and> typ \<noteq> ''b'' \<longrightarrow>
          parsePrimitive s typ =
            (if s = ''y'' \<or> s = ''n'' then PBool (s = ''y'')
             else if isDecimal s \<and> inInt64 (decimalValue s) then PInt (decimalValue s)
             else if s = ''true'' \<or> s = ''false'' then PBool (s = ''true'')
             else PStr (map (\<lambda>c. if c = CHR ''_'' then CHR '' '' else c) s))))"
proof (intro conjI impI)
  show "parsePrimitive ''~'' typ = PNil" by (rule parsePrimitive_null)
next
  assume "s \<noteq> ''~''" "typ = ''i'' \<or> typ = ''i+''"
  then have "parsePrimitive s typ = PInt (fst (Atoi s))" by (rule parsePrimitive_int)
  then show "parsePrimitive s typ =
            PInt (if isDecimal s
                  then (if inInt64 (decimalValue s) then decimalValue s else nearestBound s)
                  else if leadingOverflow s then nearestBound s
                  else 0)"
    by (simp add: Atoi_spec)
next
  assume "s \<noteq> ''~''" "typ = ''b''"
  then show "parsePrimitive s typ = PBool (s = ''1'' \<or> s = ''y'' \<or> s = ''true'')"
    using parsePrimitive_bool [of s] by simp
next
  assume "s \<noteq> ''~''" "typ \<noteq> ''i'' \<and> typ \<noteq> ''i+'' \<and> typ \<noteq> ''b''"
  then have "parsePrimitive s typ =
            (if s = ''y'' \<or> s = ''n'' then PBool (s = ''y'')
             else if snd (Atoi s) = None then PInt (fst (Atoi s))
             else if s = ''true'' \<or> s = ''false'' then PBool (s = ''true'')
             else PStr (map (\<lambda>c. if c = CHR ''_'' then CHR '' '' else c) s))"
    using parsePrimitive_auto [of s "typ"] by blast
  note pp = this
  define ok where "ok = (isDecimal s \<and> inInt64 (decimalValue s))"
  have a: "(snd (Atoi s) = None) = ok" by (simp add: Atoi_spec ok_def)
  have b: "ok \<Longrightarrow> fst (Atoi s) = decimalValue s" by (simp add: Atoi_spec ok_def)
  have "parsePrimitive s typ =
            (if s = ''y'' \<or> s = ''n'' then PBool (s = ''y'')
             else if ok then PInt (decimalValue s)
             else if s = ''true'' \<or> s = ''false'' then PBool (s = ''true'')
             else PStr (map (\<lambda>c. if c = CHR ''_'' then CHR '' '' else c) s))"
  proof (cases ok)
    case True
    show ?thesis unfolding pp a b [OF True] by (rule refl)
  next
    case False
    show ?thesis unfolding pp a using False by (simp only: if_False)
  qed
  then show "parsePrimitive s typ =
            (if s = ''y'' \<or> s = ''n'' then PBool (s = ''y'')
             else if isDecimal s \<and> inInt64 (decimalValue s) then PInt (decimalValue s)
             else if s = ''true'' \<or> s = ''false'' then PBool (s = ''true'')
             else PStr (map (\<lambda>c. if c = CHR ''_'' then CHR '' '' else c) s))"
    unfolding ok_def .
qed

text \<open>
  Claim C3 as stated fails: the token \<^verbatim>\<open>9223372036854775808\<close> does not parse as an
  \<^verbatim>\<open>int\<close> (\<^verbatim>\<open>Atoi\<close> returns a range error), and with hint \<^verbatim>\<open>i\<close> it yields
  \<open>2^63 - 1\<close>, not 0.
\<close>

theorem parsePrimitive_overflow_counterexample:
  "snd (Atoi ''9223372036854775808'') = Some ErrRange \<and>
   parsePrimitive ''9223372036854775808'' ''i'' = PInt 9223372036854775807 \<and>
   parsePrimitive ''9223372036854775808'' ''i'' \<noteq> PInt 0"
  by code_simp

text \<open>So does a token that is no number at all, when its digits overflow before the
  byte that is no digit is read.\<close>

lemma parsePrimitive_overflow_before_syntax:
  "Atoi ''99999999999999999999x'' = (9223372036854775807, Some ErrRange) \<and>
   parsePrimitive ''99999999999999999999x'' ''i'' = PInt 9223372036854775807 \<and>
   parsePrimitive ''-99999999999999999999x'' ''i+'' = PInt (- 9223372036854775808)"
  by code_simp

theorem parsePrimitive_cases_witness:
  "parsePrimitive ''~'' ''s'' = PNil \<and>
   parsePrimitive ''12x'' ''i'' = PInt 0 \<and>
   parsePrimitive ''-42'' ''i+'' = PInt (- 42) \<and>
   parsePrimitive ''-9223372036854775809'' ''i'' = PInt (- 9223372036854775808) \<and>
   parsePrimitive ''99999999999999999999x'' ''i'' = PInt 9223372036854775807 \<and>
   parsePrimitive ''true'' ''b'' = PBool True \<and>
   parsePrimitive ''17'' ''auto'' = PInt 17 \<and>
   parsePrimitive ''a_b'' ''auto'' = PStr ''a b''"
proof -
  have n: "''12x'' \<noteq> ''~''" "''-42'' \<noteq> ''~''" "''-9223372036854775809'' \<noteq> ''~''"
    "''99999999999999999999x'' \<noteq> ''~''" "''true'' \<noteq> ''~''" "''17'' \<noteq> ''~''" "''a_b'' \<noteq> ''~''"
    by simp_all
  have t: "''auto'' \<noteq> ''i'' \<and> ''auto'' \<noteq> ''i+'' \<and> ''auto'' \<noteq> ''b''" by simp
  have e1: "(if isDecimal ''12x''
             then (if inInt64 (decimalValue ''12x'') then decimalValue ''12x'' else nearestBound ''12x'')
             else if leadingOverflow ''12x'' then nearestBound ''12x'' else 0) = 0"
    by code_simp
  have e2: "(if isDecimal ''-42''
             then (if inInt64 (decimalValue ''-42'') then decimalValue ''-42'' else nearestBound ''-42'')
             else if leadingOverflow ''-42'' then nearestBound ''-42'' else 0) = - 42"
    by code_simp
  have e3: "(if isDecimal ''-9223372036854775809''
             then (if inInt64 (decimalValue ''-9223372036854775809'')
                   then decimalValue ''-9223372036854775809'' else nearestBound ''-9223372036854775809'')
             else if leadingOverflow ''-9223372036854775809'' then nearestBound ''-9223372036854775809''
             else 0) = - 9223372036854775808"
    by code_simp
  have e4: "(if isDecimal ''99999999999999999999x''
             then (if inInt64 (decimalValue ''99999999999999999999x'')
                   then decimalValue ''99999999999999999999x'' else nearestBound ''99999999999999999999x'')
             else if leadingOverflow ''99999999999999999999x'' then nearestBound ''99999999999999999999x''
             else 0) = 9223372036854775807"
    by code_simp
  have e5: "isDecimal ''17''" "inInt64 (decimalValue ''17'')"
    by code_simp+
  have e5': "decimalValue ''17'' = 17"
    by code_simp
  have e6: "\<not> isDecimal ''a_b''" by code_simp
  have w1: "parsePrimitive ''~'' ''s'' = PNil"
    using parsePrimitive_cases [of "''s''" "''x''"] by blast
  have w2: "parsePrimitive ''12x'' ''i'' = PInt 0"
    using parsePrimitive_cases [of "''i''" "''12x''"] n(1) e1 by simp
  have w3: "parsePrimitive ''-42'' ''i+'' = PInt (- 42)"
    using parsePrimitive_cases [of "''i+''" "''-42''"] n(2) e2 by simp
  have w4: "parsePrimitive ''-9223372036854775809'' ''i'' = PInt (- 9223372036854775808)"
    using parsePrimitive_cases [of "''i''" "''-9223372036854775809''"] n(3) e3 by simp
  have w5: "parsePrimitive ''99999999999999999999x'' ''i'' = PInt 9223372036854775807"
    using parsePrimitive_cases [of "''i''" "''99999999999999999999x''"] n(4) e4 by simp
  have "parsePrimitive ''true'' ''b'' = PBool (''true'' = ''1'' \<or> ''true'' = ''y'' \<or> ''true'' = ''true'')"
    using parsePrimitive_cases [of "''b''" "''true''"] n(5) by blast
  then have w6: "parsePrimitive ''true'' ''b'' = PBool True" by simp
  have "parsePrimitive ''17'' ''auto'' = PInt (decimalValue ''17'')"
    using parsePrimitive_cases [of "''auto''" "''17''"] n(6) t e5 by simp
  then have w7: "parsePrimitive ''17'' ''auto'' = PInt 17" unfolding e5' .
  have w8: "parsePrimitive ''a_b'' ''auto'' = PStr ''a b''"
    using parsePrimitive_cases [of "''auto''" "''a_b''"] n(7) t e6 by simp
  show ?thesis using w1 w2 w3 w4 w5 w6 w7 w8 by blast
qed

section \<open>Rows without tokens: the explicit row count\<close>











subsection \<open>What an \<^verbatim>\<open>i+\<close> column assigns\<close>























text \<open>
  What an \<^verbatim>\<open>i+\<close> column gives a field that is no integer: a string field the
  character with the counter's value as its code point; a pointer field and a boolean
  field nothing. A field a constant has set keeps its value under a column that is not
  \<^verbatim>\<open>i+\<close>. A field that is not exported cannot be assigned.
\<close>

lemma auto_column_other_fields:
  "\<forall>uf. Unmarshal uf ''# a:i+ b:i+ c:i+ +1''
       (PointerTo (Slice (TStruct [(Field ''A'' [] [] True, TString),
                                   (Field ''B'' [] [] True, TPtr TInt),
                                   (Field ''C'' [] [] True, TBool)]) [])) =
     (PointerTo (Slice (TStruct [(Field ''A'' [] [] True, TString),
                                 (Field ''B'' [] [] True, TPtr TInt),
                                 (Field ''C'' [] [] True, TBool)])
        [VStruct [(Field ''A'' [] [] True, VStr [CHR 0x01]),
                  (Field ''B'' [] [] True, VPtr TInt None),
                  (Field ''C'' [] [] True, VBool False)]]), None)"
  by (intro allI) code_simp

lemma constant_kept_without_token:
  "\<forall>uf. Unmarshal uf ''# @status=ok status:s id:i+ +2'' (PointerTo (Slice metricT [])) =
     (PointerTo (Slice metricT [metric 1 ''ok'', metric 2 ''ok'']), None)"
  by (intro allI) code_simp

lemma auto_column_unexported_panics:
  "\<forall>uf. Unmarshal uf ''# name:i+ +2'' (PointerTo (Slice (TStruct [(Field ''name'' [] [] False, TInt)]) [])) =
     (PointerTo (Slice (TStruct [(Field ''name'' [] [] False, TInt)]) []), Some Panic)"
  by (intro allI) code_simp

section \<open>Round trip\<close>

text \<open>The rows of the repository's test \<^verbatim>\<open>TestRoundtripWithNulls\<close>: a name and an
  optional e-mail address.\<close>

definition contactT :: gtype where
  "contactT = TStruct [(Field ''Name'' ''name'' [] True, TString),
                       (Field ''Email'' ''email'' [] True, TPtr TString)]"

definition contact :: "string \<Rightarrow> string option \<Rightarrow> gval" where
  "contact n e = VStruct [(Field ''Name'' ''name'' [] True, VStr n),
                          (Field ''Email'' ''email'' [] True, VPtr TString (map_option VStr e))]"

lemma parsePrimitive_not_nil: "s \<noteq> ''~'' \<Longrightarrow> parsePrimitive s ty \<noteq> PNil"
  by (auto simp: parsePrimitive_def split: prod.splits option.splits)

lemma convertTo_pointer: "c \<noteq> PNil \<Longrightarrow> convertTo c (TPtr t) = None"
  by (cases c) simp_all

text \<open>
  The decoder never assigns a token to a pointer field: what \<^verbatim>\<open>parsePrimitive\<close>
  returns for a token other than \<^verbatim>\<open>~\<close> is an \<^verbatim>\<open>int\<close>, a \<^verbatim>\<open>bool\<close> or a
  \<^verbatim>\<open>string\<close>, and none of them is convertible to a pointer type, so \<^verbatim>\<open>setField\<close>
  returns without a \<^verbatim>\<open>Set\<close> and without an error.
\<close>

lemma setField_pointer_field:
  assumes "findField uf fs name = Some i" "typeOf (snd (fs ! i)) = TPtr t"
    and "v \<noteq> ''~''" "\<not> HasPrefix v ''{''"
  shows "setField uf False (VStruct fs) name ty v = (VStruct fs, None)"
proof -
  have "convertTo (parsePrimitive v ty) (TPtr t) = None"
    using assms(3) by (intro convertTo_pointer parsePrimitive_not_nil)
  then show ?thesis
    using assms parsePrimitive_not_nil [OF assms(3), of ty]
    by (simp add: setField.simps derefPanics_def derefVal_def rewrap_def split: prim.splits)
qed

text \<open>
  Claim C1, where the code misses it. The two rows of \<^verbatim>\<open>TestRoundtripWithNulls\<close>, the
  first with an e-mail address and the second without, are encoded with the address in
  the first row and \<^verbatim>\<open>~\<close> in the second; decoding that output gives two rows without
  an address, and no error.
\<close>

theorem roundtrip_loses_optional_value:
  "\<forall>uf.
     Marshal stableRuntime
       (Slice contactT [contact ''Alice'' (Some ''alice@example.com''), contact ''Bob'' None]) =
       (''# email:s name:s\<newline>alice@example.com Alice\<newline>~ Bob\<newline>'', None) \<and>
     Unmarshal uf ''# email:s name:s\<newline>alice@example.com Alice\<newline>~ Bob\<newline>''
       (PointerTo (Slice contactT [])) =
       (PointerTo (Slice contactT [contact ''Alice'' None, contact ''Bob'' None]), None) \<and>
     contact ''Alice'' None \<noteq> contact ''Alice'' (Some ''alice@example.com'')"
  by (intro allI) code_simp

text \<open>
  Other values that do not come back: a string with an underscore comes back with a
  space (the encoder writes a space as an underscore); a string of digits in the range of
  \<^verbatim>\<open>int\<close> is read as that integer and converted to the character with that code point;
  the strings \<^verbatim>\<open>y\<close>, \<^verbatim>\<open>n\<close>, \<^verbatim>\<open>true\<close> and \<^verbatim>\<open>false\<close> are read as booleans, which
  are not assigned to a string field.
\<close>

definition label :: "string \<Rightarrow> string \<Rightarrow> gval" where
  "label a b = VStruct [(Field ''A'' ''a'' [] True, VStr a), (Field ''B'' ''b'' [] True, VStr b)]"

definition labelT :: gtype where
  "labelT = TStruct [(Field ''A'' ''a'' [] True, TString), (Field ''B'' ''b'' [] True, TString)]"

lemma roundtrip_loses_strings:
  "\<forall>uf.
     Marshal stableRuntime (Slice labelT [label ''snake_case'' ''42'', label ''x'' ''y'']) =
       (''# a:s b:s\<newline>snake_case 42\<newline>x y\<newline>'', None) \<and>
     Unmarshal uf ''# a:s b:s\<newline>snake_case 42\<newline>x y\<newline>'' (PointerTo (Slice labelT [])) =
       (PointerTo (Slice labelT [label ''snake case'' ''*'', label ''x'' []]), None)"
  by (intro allI) code_simp

end
